theory Spec2Isabelle
  imports Complex_Main "HOL-Library.List_Lexorder" "HOL-Library.Char_ord"
begin


section \<open>Numbers of the program\<close>

text \<open>
  The program computes with JavaScript numbers. They are modelled as the real numbers
  extended with the three special values of IEEE 754 arithmetic, so that a division by
  zero, an infinite operand and a not-a-number propagate through the model as they do
  through the program. Arithmetic on finite numbers is exact in the model: rounding,
  overflow and the sign of zero are not represented (the only zero is the positive one).
\<close>

datatype jsnum = Fin real | PInf | NInf | NaN

fun isFin :: "jsnum \<Rightarrow> bool" where
  "isFin (Fin x) = True"
| "isFin x = False"

fun jneg :: "jsnum \<Rightarrow> jsnum" where
  "jneg (Fin x) = Fin (- x)"
| "jneg PInf = NInf"
| "jneg NInf = PInf"
| "jneg NaN = NaN"

fun jadd :: "jsnum \<Rightarrow> jsnum \<Rightarrow> jsnum" where
  "jadd NaN y = NaN"
| "jadd x NaN = NaN"
| "jadd (Fin a) (Fin b) = Fin (a + b)"
| "jadd PInf NInf = NaN"
| "jadd NInf PInf = NaN"
| "jadd PInf y = PInf"
| "jadd NInf y = NInf"
| "jadd (Fin a) y = y"

definition jsub :: "jsnum \<Rightarrow> jsnum \<Rightarrow> jsnum" where
  "jsub x y = jadd x (jneg y)"

fun jmul :: "jsnum \<Rightarrow> jsnum \<Rightarrow> jsnum" where
  "jmul NaN y = NaN"
| "jmul x NaN = NaN"
| "jmul (Fin a) (Fin b) = Fin (a * b)"
| "jmul (Fin a) PInf = (if a = 0 then NaN else if 0 < a then PInf else NInf)"
| "jmul (Fin a) NInf = (if a = 0 then NaN else if 0 < a then NInf else PInf)"
| "jmul PInf (Fin b) = (if b = 0 then NaN else if 0 < b then PInf else NInf)"
| "jmul NInf (Fin b) = (if b = 0 then NaN else if 0 < b then NInf else PInf)"
| "jmul PInf PInf = PInf"
| "jmul PInf NInf = NInf"
| "jmul NInf PInf = NInf"
| "jmul NInf NInf = PInf"

fun jdiv :: "jsnum \<Rightarrow> jsnum \<Rightarrow> jsnum" where
  "jdiv NaN y = NaN"
| "jdiv x NaN = NaN"
| "jdiv (Fin a) (Fin b) =
     (if b \<noteq> 0 then Fin (a / b)
      else if a = 0 then NaN else if 0 < a then PInf else NInf)"
| "jdiv (Fin a) y = Fin 0"
| "jdiv PInf (Fin b) = (if 0 \<le> b then PInf else NInf)"
| "jdiv NInf (Fin b) = (if 0 \<le> b then NInf else PInf)"
| "jdiv x y = NaN"

text \<open>The comparison \<open>x > y\<close>: false as soon as one side is not a number.\<close>

fun jgt :: "jsnum \<Rightarrow> jsnum \<Rightarrow> bool" where
  "jgt NaN y = False"
| "jgt x NaN = False"
| "jgt (Fin a) (Fin b) = (b < a)"
| "jgt PInf PInf = False"
| "jgt PInf y = True"
| "jgt NInf y = False"
| "jgt (Fin a) PInf = False"
| "jgt (Fin a) NInf = True"

definition jlt :: "jsnum \<Rightarrow> jsnum \<Rightarrow> bool" where
  "jlt x y = jgt y x"

text \<open>Strict equality \<open>x === y\<close> of two numbers: a not-a-number equals nothing.\<close>

definition jeq :: "jsnum \<Rightarrow> jsnum \<Rightarrow> bool" where
  "jeq x y = (x \<noteq> NaN \<and> x = y)"

definition jle :: "jsnum \<Rightarrow> jsnum \<Rightarrow> bool" where
  "jle x y = (jlt x y \<or> jeq x y)"

text \<open>A number in a condition: \<open>0\<close> and not-a-number are false.\<close>

fun truthy :: "jsnum \<Rightarrow> bool" where
  "truthy (Fin x) = (x \<noteq> 0)"
| "truthy NaN = False"
| "truthy x = True"

text \<open>\<open>Math.max\<close> and \<open>Math.min\<close> of two numbers, \<open>Math.sqrt\<close>, \<open>Math.floor\<close>.\<close>

definition jmax :: "jsnum \<Rightarrow> jsnum \<Rightarrow> jsnum" where
  "jmax x y = (if x = NaN \<or> y = NaN then NaN else if jgt y x then y else x)"

definition jmin :: "jsnum \<Rightarrow> jsnum \<Rightarrow> jsnum" where
  "jmin x y = (if x = NaN \<or> y = NaN then NaN else if jlt y x then y else x)"

fun jsqrt :: "jsnum \<Rightarrow> jsnum" where
  "jsqrt (Fin x) = (if x < 0 then NaN else Fin (sqrt x))"
| "jsqrt PInf = PInf"
| "jsqrt x = NaN"

fun jfloor :: "jsnum \<Rightarrow> jsnum" where
  "jfloor (Fin x) = Fin (of_int \<lfloor>x\<rfloor>)"
| "jfloor x = x"

section \<open>Data model\<close>

text \<open>
  A price record (\<open>DailyData\<close>) is an object with a \<open>date\<close> string and one numeric
  field per ticker; a value point is an object with a \<open>date\<close> and a \<open>value\<close>. A ticker
  that is absent from a record (or holds \<open>null\<close>) reads as no number at all. The field
  called \<open>date\<close> holds an ISO date string, which is not a number and does not convert to
  a positive one, so reading it as a price gives no number either.
\<close>

record dated =
  date :: string

record DailyData = dated +
  tickers :: "string \<rightharpoonup> jsnum"

record ValuePoint = dated +
  "value" :: jsnum

definition priceOf :: "DailyData \<Rightarrow> string \<Rightarrow> jsnum option" where
  "priceOf dayData ticker = (if ticker = ''date'' then None else tickers dayData ticker)"

text \<open>
  The weight object and the unit holdings are objects keyed by ticker. They are modelled
  as association lists in the order of \<open>Object.keys\<close>; an object has every key once.
\<close>

type_synonym weightMap = "(string \<times> jsnum) list"
type_synonym unitHolding = "(string \<times> jsnum) list"

datatype RebalanceFrequency = FreqNone | Quarterly | Annually

text \<open>
  \<open>Date\<close> belongs to the platform. A date object is either invalid or carries its time
  value in milliseconds, its full year and its month index (from 0) in local time; the
  constructor \<open>new Date(s)\<close> is a parameter \<open>mkDate\<close> of the functions that call it.
\<close>

datatype jsdate = InvalidDate | ValidDate int int nat

fun getTime :: "jsdate \<Rightarrow> jsnum" where
  "getTime InvalidDate = NaN"
| "getTime (ValidDate t y m) = Fin (of_int t)"

fun getFullYear :: "jsdate \<Rightarrow> jsnum" where
  "getFullYear InvalidDate = NaN"
| "getFullYear (ValidDate t y m) = Fin (of_int y)"

fun getMonth :: "jsdate \<Rightarrow> jsnum" where
  "getMonth InvalidDate = NaN"
| "getMonth (ValidDate t y m) = Fin (of_nat m)"

section \<open>Valuation\<close>

definition shouldRebalance ::
  "(string \<Rightarrow> jsdate) \<Rightarrow> string \<Rightarrow> string \<Rightarrow> RebalanceFrequency \<Rightarrow> bool" where
  "shouldRebalance mkDate currentDate lastRebalanceDate frequency =
     (if frequency = FreqNone then False
      else
        let current = mkDate currentDate;
            lastRebalance = mkDate lastRebalanceDate
        in if frequency = Quarterly then
             (let currentQuarter = jfloor (jdiv (getMonth current) (Fin 3));
                  lastQuarter = jfloor (jdiv (getMonth lastRebalance) (Fin 3));
                  currentYear = getFullYear current;
                  lastYear = getFullYear lastRebalance
              in jgt currentYear lastYear \<or>
                 (jeq currentYear lastYear \<and> jgt currentQuarter lastQuarter))
           else if frequency = Annually then
             jgt (getFullYear current) (getFullYear lastRebalance)
           else False)"

definition calculateUnits :: "weightMap \<Rightarrow> DailyData \<Rightarrow> jsnum \<Rightarrow> unitHolding" where
  "calculateUnits weights dayData portfolioValue =
     map (\<lambda>(ticker, w).
            let weight = jdiv w (Fin 100) in
            (ticker,
             case priceOf dayData ticker of
               Some price \<Rightarrow>
                 if truthy price \<and> jgt price (Fin 0)
                 then jdiv (jmul portfolioValue weight) price
                 else Fin 0
             | None \<Rightarrow> Fin 0))
         weights"

text \<open>One ticker's term of the day's value: units times price, when the price is a number.\<close>

definition contribution :: "DailyData \<Rightarrow> string \<times> jsnum \<Rightarrow> jsnum option" where
  "contribution dayData holding =
     (case priceOf dayData (fst holding) of
        Some price \<Rightarrow> Some (jmul (snd holding) price)
      | None \<Rightarrow> None)"

definition calculateValue :: "DailyData \<Rightarrow> unitHolding \<Rightarrow> jsnum" where
  "calculateValue dayData currentUnits =
     foldl (\<lambda>totalValue holding.
              case contribution dayData holding of
                Some c \<Rightarrow> jadd totalValue c
              | None \<Rightarrow> totalValue)
           (Fin 0) currentUnits"

text \<open>
  The rebalance check at the head of the loop body: the units and the last rebalance
  date that are in force once day \<open>i\<close> has been looked at.
\<close>

definition rebalanceStep ::
  "(string \<Rightarrow> jsdate) \<Rightarrow> weightMap \<Rightarrow> RebalanceFrequency \<Rightarrow> nat \<Rightarrow> DailyData \<Rightarrow>
   unitHolding \<times> string \<Rightarrow> unitHolding \<times> string" where
  "rebalanceStep mkDate weights frequency i day st =
     (case st of (units, lastRebalanceDate) \<Rightarrow>
        if 0 < i \<and> shouldRebalance mkDate (date day) lastRebalanceDate frequency
        then (let currentValue = calculateValue day units
              in (calculateUnits weights day currentValue, date day))
        else (units, lastRebalanceDate))"

fun historyLoop ::
  "(string \<Rightarrow> jsdate) \<Rightarrow> weightMap \<Rightarrow> RebalanceFrequency \<Rightarrow> nat \<Rightarrow>
   unitHolding \<times> string \<Rightarrow> DailyData list \<Rightarrow> ValuePoint list" where
  "historyLoop mkDate weights frequency i st [] = []"
| "historyLoop mkDate weights frequency i st (day # rest) =
     (let st' = rebalanceStep mkDate weights frequency i day st;
          totalValue = calculateValue day (fst st')
      in \<lparr>date = date day, value = totalValue\<rparr>
         # historyLoop mkDate weights frequency (Suc i) st' rest)"

definition calculatePortfolioHistory ::
  "(string \<Rightarrow> jsdate) \<Rightarrow> DailyData list \<Rightarrow> weightMap \<Rightarrow> jsnum \<Rightarrow> RebalanceFrequency \<Rightarrow>
   ValuePoint list" where
  "calculatePortfolioHistory mkDate historicalData weights initialInvestment rebalanceFrequency =
     (case historicalData of
        [] \<Rightarrow> []
      | day0 # _ \<Rightarrow>
          historyLoop mkDate weights rebalanceFrequency 0
            (calculateUnits weights day0 initialInvestment, date day0) historicalData)"

text \<open>
  The units in force on each day of the loop, in the order of the days: the state the
  loop carries, made visible.
\<close>

fun unitsTrace ::
  "(string \<Rightarrow> jsdate) \<Rightarrow> weightMap \<Rightarrow> RebalanceFrequency \<Rightarrow> nat \<Rightarrow>
   unitHolding \<times> string \<Rightarrow> DailyData list \<Rightarrow> (unitHolding \<times> string) list" where
  "unitsTrace mkDate weights frequency i st [] = []"
| "unitsTrace mkDate weights frequency i st (day # rest) =
     (let st' = rebalanceStep mkDate weights frequency i day st
      in st' # unitsTrace mkDate weights frequency (Suc i) st' rest)"

section \<open>Metrics\<close>

text \<open>
  \<open>Math.pow\<close>, by the cases of the language standard; on finite operands it is the real
  power, with a not-a-number for a negative base under a fractional exponent.
\<close>

definition isInt :: "real \<Rightarrow> bool" where
  "isInt e = (e = of_int \<lfloor>e\<rfloor>)"

definition realPow :: "real \<Rightarrow> real \<Rightarrow> real" where
  "realPow x e = (if isInt e then x powi \<lfloor>e\<rfloor> else x powr e)"

fun jpow :: "jsnum \<Rightarrow> jsnum \<Rightarrow> jsnum" where
  "jpow b NaN = NaN"
| "jpow b (Fin e) =
     (if e = 0 then Fin 1
      else case b of
        NaN \<Rightarrow> NaN
      | PInf \<Rightarrow> if 0 < e then PInf else Fin 0
      | NInf \<Rightarrow> if 0 < e then (if isInt e \<and> odd \<lfloor>e\<rfloor> then NInf else PInf) else Fin 0
      | Fin x \<Rightarrow>
          if x = 0 then (if 0 < e then Fin 0 else PInf)
          else if x < 0 \<and> \<not> isInt e then NaN
          else Fin (realPow x e))"
| "jpow b PInf =
     (case b of
        NaN \<Rightarrow> NaN
      | PInf \<Rightarrow> PInf
      | NInf \<Rightarrow> PInf
      | Fin x \<Rightarrow>
          if x = 0 then Fin 0
          else if 1 < \<bar>x\<bar> then PInf else if \<bar>x\<bar> = 1 then NaN else Fin 0)"
| "jpow b NInf =
     (case b of
        NaN \<Rightarrow> NaN
      | PInf \<Rightarrow> Fin 0
      | NInf \<Rightarrow> Fin 0
      | Fin x \<Rightarrow>
          if x = 0 then PInf
          else if 1 < \<bar>x\<bar> then Fin 0 else if \<bar>x\<bar> = 1 then NaN else PInf)"

record MonthlyPerformance =
  month :: string
  return :: jsnum
  startValue :: jsnum
  endValue :: jsnum

record MonthlyStats =
  averageReturn :: jsnum
  upMonths :: nat
  downMonths :: nat
  bestMonth :: MonthlyPerformance
  worstMonth :: MonthlyPerformance
  monthlyData :: "MonthlyPerformance list"

record Metrics =
  initialInvestment :: jsnum
  finalBalance :: jsnum
  totalReturn :: jsnum
  cagr :: jsnum
  volatility :: jsnum
  sharpeRatio :: jsnum
  bestDay :: jsnum
  worstDay :: jsnum
  maxDrawdown :: jsnum
  monthlyStats :: "MonthlyStats option"
  sp500Correlation :: "jsnum option"

definition ANNUAL_RISK_FREE_RATE :: jsnum where
  "ANNUAL_RISK_FREE_RATE = Fin (3 / 100)"

subsection \<open>Correlation\<close>

definition calculateCorrelation :: "jsnum list \<Rightarrow> jsnum list \<Rightarrow> jsnum" where
  "calculateCorrelation portfolioReturns benchmarkReturns =
     (if length portfolioReturns \<noteq> length benchmarkReturns \<or> length portfolioReturns < 2
      then Fin 0
      else
        let n = Fin (real (length portfolioReturns));
            meanX = jdiv (foldl jadd (Fin 0) portfolioReturns) n;
            meanY = jdiv (foldl jadd (Fin 0) benchmarkReturns) n;
            (numerator, sumXSquared, sumYSquared) =
              foldl (\<lambda>(numerator, sumXSquared, sumYSquared) (x, y).
                       let xDiff = jsub x meanX;
                           yDiff = jsub y meanY
                       in (jadd numerator (jmul xDiff yDiff),
                           jadd sumXSquared (jmul xDiff xDiff),
                           jadd sumYSquared (jmul yDiff yDiff)))
                    (Fin 0, Fin 0, Fin 0) (zip portfolioReturns benchmarkReturns);
            denominator = jsqrt (jmul sumXSquared sumYSquared)
        in if jeq denominator (Fin 0) then Fin 0 else jdiv numerator denominator)"

subsection \<open>Monthly performance\<close>

text \<open>
  The loop over the points carries the months saved so far, the current month, and the
  first and the last point seen in it (\<open>null\<close> at the start).
\<close>

definition saveMonth ::
  "string \<Rightarrow> ValuePoint option \<Rightarrow> ValuePoint option \<Rightarrow> MonthlyPerformance list \<Rightarrow>
   MonthlyPerformance list" where
  "saveMonth currentMonth monthStart monthEnd saved =
     (case (monthStart, monthEnd) of
        (Some s, Some e) \<Rightarrow>
          (let monthReturn = jsub (jdiv (value e) (value s)) (Fin 1)
           in saved @ [\<lparr>month = currentMonth, return = monthReturn,
                         startValue = value s, endValue = value e\<rparr>])
      | _ \<Rightarrow> saved)"

fun monthLoop ::
  "MonthlyPerformance list \<times> string \<times> ValuePoint option \<times> ValuePoint option \<Rightarrow>
   ValuePoint list \<Rightarrow>
   MonthlyPerformance list \<times> string \<times> ValuePoint option \<times> ValuePoint option" where
  "monthLoop st [] = st"
| "monthLoop (saved, currentMonth, monthStart, monthEnd) (day # rest) =
     (let m = take 7 (date day)
      in if m \<noteq> currentMonth
         then monthLoop (saveMonth currentMonth monthStart monthEnd saved, m, Some day, Some day)
                rest
         else monthLoop (saved, currentMonth, monthStart, Some day) rest)"

definition calculateMonthlyPerformance :: "ValuePoint list \<Rightarrow> MonthlyStats option" where
  "calculateMonthlyPerformance portfolioValues =
     (if length portfolioValues < 2 then None
      else
        case monthLoop ([], [], None, None) portfolioValues of
          (saved, currentMonth, monthStart, monthEnd) \<Rightarrow>
            (case saveMonth currentMonth monthStart monthEnd saved of
               [] \<Rightarrow> None
             | m0 # ms \<Rightarrow>
                 Some \<lparr>averageReturn =
                         jdiv (foldl (\<lambda>sum m. jadd sum (return m)) (Fin 0) (m0 # ms))
                              (Fin (real (length (m0 # ms)))),
                       upMonths = length (filter (\<lambda>m. jgt (return m) (Fin 0)) (m0 # ms)),
                       downMonths = length (filter (\<lambda>m. jle (return m) (Fin 0)) (m0 # ms)),
                       bestMonth =
                         foldl (\<lambda>best m. if jgt (return m) (return best) then m else best) m0 ms,
                       worstMonth =
                         foldl (\<lambda>worst m. if jlt (return m) (return worst) then m else worst)
                           m0 ms,
                       monthlyData = m0 # ms\<rparr>))"

subsection \<open>Correlation with the benchmark\<close>

text \<open>
  The benchmark values by date (a later point of the same date replaces an earlier one)
  and the sorted dates, both restricted to the points with a positive value. Strings
  are compared and sorted character by character.
\<close>

definition sp500ByDate :: "ValuePoint list \<Rightarrow> (string \<rightharpoonup> jsnum)" where
  "sp500ByDate sp500Data =
     foldl (\<lambda>byDate d. if truthy (value d) \<and> jgt (value d) (Fin 0)
                         then byDate(date d \<mapsto> value d) else byDate)
           Map.empty sp500Data"

definition sp500Dates :: "ValuePoint list \<Rightarrow> string list" where
  "sp500Dates sp500Data =
     sort (map date (filter (\<lambda>d. truthy (value d) \<and> jgt (value d) (Fin 0)) sp500Data))"

definition findNearestSp500Date ::
  "(string \<rightharpoonup> jsnum) \<Rightarrow> string list \<Rightarrow> string \<Rightarrow> string option" where
  "findNearestSp500Date byDate dates targetDate =
     (if (case byDate targetDate of Some v \<Rightarrow> truthy v | None \<Rightarrow> False)
      then Some targetDate
      else find (\<lambda>d. d \<le> targetDate) (rev dates))"

text \<open>A property read from the lookup object in arithmetic: a missing one is no number.\<close>

definition numberAt :: "(string \<rightharpoonup> jsnum) \<Rightarrow> string \<Rightarrow> jsnum" where
  "numberAt byDate d = (case byDate d of Some v \<Rightarrow> v | None \<Rightarrow> NaN)"

function weeklyLoop ::
  "(string \<rightharpoonup> jsnum) \<Rightarrow> string list \<Rightarrow> ValuePoint list \<Rightarrow> nat \<Rightarrow>
   jsnum list \<times> jsnum list \<Rightarrow> jsnum list \<times> jsnum list" where
  "weeklyLoop byDate dates portfolioValues i acc =
     (if i < length portfolioValues then
        (let currDate = date (portfolioValues ! i);
             prevDate = date (portfolioValues ! (i - 5));
             currSp500Date = findNearestSp500Date byDate dates currDate;
             prevSp500Date = findNearestSp500Date byDate dates prevDate
         in weeklyLoop byDate dates portfolioValues (i + 5)
              (case (currSp500Date, prevSp500Date) of
                 (Some c, Some p) \<Rightarrow>
                   if c \<noteq> [] \<and> p \<noteq> [] \<and> c \<noteq> p then
                     (let portfolioReturn =
                            jsub (jdiv (value (portfolioValues ! i))
                                       (value (portfolioValues ! (i - 5)))) (Fin 1);
                          sp500Return =
                            jsub (jdiv (numberAt byDate c) (numberAt byDate p)) (Fin 1)
                      in (fst acc @ [portfolioReturn], snd acc @ [sp500Return]))
                   else acc
               | _ \<Rightarrow> acc))
      else acc)"
  by pat_completeness auto
termination
  by (relation "measure (\<lambda>(byDate, dates, portfolioValues, i, acc). length portfolioValues - i)")
     auto

record alignState =
  lastValidSp500Date :: "string option"
  lastValidSp500Value :: "jsnum option"
  lastPortfolioValue :: "jsnum option"
  alignedPortfolioReturns :: "jsnum list"
  alignedSp500Returns :: "jsnum list"

fun alignedLoop ::
  "(string \<rightharpoonup> jsnum) \<Rightarrow> string list \<Rightarrow> alignState \<Rightarrow> ValuePoint list \<Rightarrow> alignState" where
  "alignedLoop byDate dates st [] = st"
| "alignedLoop byDate dates st (point # rest) =
     (let currDate = date point;
          currSp500Date = findNearestSp500Date byDate dates currDate
      in case currSp500Date of
           None \<Rightarrow> alignedLoop byDate dates st rest
         | Some c \<Rightarrow>
             if c \<noteq> [] \<and> (case byDate c of Some v \<Rightarrow> truthy v | None \<Rightarrow> False) then
               (let currSp500Value = numberAt byDate c;
                    st' =
                      (case (lastValidSp500Date st, lastValidSp500Value st,
                             lastPortfolioValue st) of
                         (Some ld, Some lv, Some lp) \<Rightarrow>
                           if ld \<noteq> [] \<and> truthy lv \<and> truthy lp \<and> c \<noteq> ld then
                             (let portfolioReturn = jsub (jdiv (value point) lp) (Fin 1);
                                  sp500Return = jsub (jdiv currSp500Value lv) (Fin 1)
                              in st\<lparr>alignedPortfolioReturns :=
                                      alignedPortfolioReturns st @ [portfolioReturn],
                                    alignedSp500Returns :=
                                      alignedSp500Returns st @ [sp500Return]\<rparr>)
                           else st
                       | _ \<Rightarrow> st)
                in alignedLoop byDate dates
                     (st'\<lparr>lastValidSp500Date := Some c,
                          lastValidSp500Value := Some currSp500Value,
                          lastPortfolioValue := Some (value point)\<rparr>)
                     rest)
             else alignedLoop byDate dates st rest)"

definition sp500CorrelationOf ::
  "ValuePoint list \<Rightarrow> ValuePoint list option \<Rightarrow> jsnum option" where
  "sp500CorrelationOf portfolioValues sp500Data =
     (case sp500Data of
        None \<Rightarrow> None
      | Some benchmark \<Rightarrow>
          if 1 < length benchmark \<and> 1 < length portfolioValues then
            (let byDate = sp500ByDate benchmark;
                 dates = sp500Dates benchmark;
                 stepSize = 5;
                 weekly = weeklyLoop byDate dates portfolioValues stepSize ([], [])
             in if 10 \<le> length (fst weekly)
                then Some (calculateCorrelation (fst weekly) (snd weekly))
                else
                  (let st = alignedLoop byDate dates
                              \<lparr>lastValidSp500Date = None, lastValidSp500Value = None,
                               lastPortfolioValue = None, alignedPortfolioReturns = [],
                               alignedSp500Returns = []\<rparr>
                              portfolioValues
                   in if 20 \<le> length (alignedPortfolioReturns st)
                      then Some (calculateCorrelation (alignedPortfolioReturns st)
                                   (alignedSp500Returns st))
                      else None))
          else None)"

subsection \<open>The metrics of a value series\<close>

fun dailyReturnsOf :: "ValuePoint list \<Rightarrow> jsnum list" where
  "dailyReturnsOf (previous # current # rest) =
     jsub (jdiv (value current) (value previous)) (Fin 1) # dailyReturnsOf (current # rest)"
| "dailyReturnsOf ps = []"

text \<open>The drawdown loop over the points after the first, with its two variables.\<close>

fun drawdownLoop :: "jsnum \<Rightarrow> jsnum \<Rightarrow> ValuePoint list \<Rightarrow> jsnum" where
  "drawdownLoop maxDD peak [] = maxDD"
| "drawdownLoop maxDD peak (point # rest) =
     (let currentValue = value point
      in if jgt currentValue peak then drawdownLoop maxDD currentValue rest
         else (let drawdown = jdiv (jsub peak currentValue) peak
               in drawdownLoop (jmax maxDD drawdown) peak rest))"

definition calculateMetrics ::
  "(string \<Rightarrow> jsdate) \<Rightarrow> ValuePoint list \<Rightarrow> jsnum \<Rightarrow> ValuePoint list option \<Rightarrow> Metrics" where
  "calculateMetrics mkDate portfolioValues investment sp500Data =
     (if length portfolioValues < 2 then
        \<lparr>initialInvestment = investment, finalBalance = investment, totalReturn = Fin 0,
         cagr = Fin 0, volatility = Fin 0, sharpeRatio = Fin 0, bestDay = Fin 0,
         worstDay = Fin 0, maxDrawdown = Fin 0, monthlyStats = None, sp500Correlation = None\<rparr>
      else
        let final = value (portfolioValues ! (length portfolioValues - 1));
            total = jdiv (jsub final investment) investment;
            startDate = mkDate (date (portfolioValues ! 0));
            endDate = mkDate (date (portfolioValues ! (length portfolioValues - 1)));
            years = jdiv (jsub (getTime endDate) (getTime startDate))
                         (Fin (1000 * 3600 * 24 * 365));
            growth = (if jgt years (Fin 0)
                      then jsub (jpow (jdiv final investment) (jdiv (Fin 1) years)) (Fin 1)
                      else Fin 0);
            dailyReturns = dailyReturnsOf portfolioValues;
            meanReturn = jdiv (foldl jadd (Fin 0) dailyReturns)
                              (Fin (real (length dailyReturns)));
            variance = jdiv (foldl (\<lambda>a b. jadd a (jpow (jsub b meanReturn) (Fin 2))) (Fin 0)
                               dailyReturns)
                            (Fin (real (length dailyReturns)));
            stdDev = jsqrt variance;
            vol = jmul stdDev (jsqrt (Fin 365));
            sharpe = (if \<not> jeq vol (Fin 0)
                      then jdiv (jsub growth ANNUAL_RISK_FREE_RATE) vol else Fin 0);
            best = foldl jmax NInf dailyReturns;
            worst = foldl jmin PInf dailyReturns;
            maxDD = drawdownLoop (Fin 0) (value (portfolioValues ! 0)) (drop 1 portfolioValues)
        in \<lparr>initialInvestment = investment, finalBalance = final, totalReturn = total,
            cagr = growth, volatility = vol, sharpeRatio = sharpe, bestDay = best,
            worstDay = worst, maxDrawdown = maxDD,
            monthlyStats = calculateMonthlyPerformance portfolioValues,
            sp500Correlation = sp500CorrelationOf portfolioValues sp500Data\<rparr>)"

section \<open>Notions used in the statements\<close>

text \<open>
  Whether the rebalance check fires on each day of the loop. It depends on the dates and
  the policy only, and follows the loop's own bookkeeping of the last rebalance date.
\<close>

fun firesTrace ::
  "(string \<Rightarrow> jsdate) \<Rightarrow> RebalanceFrequency \<Rightarrow> nat \<Rightarrow> string \<Rightarrow> DailyData list \<Rightarrow> bool list" where
  "firesTrace mkDate frequency i lastRebalanceDate [] = []"
| "firesTrace mkDate frequency i lastRebalanceDate (day # rest) =
     (let fired = (0 < i \<and> shouldRebalance mkDate (date day) lastRebalanceDate frequency)
      in fired # firesTrace mkDate frequency (Suc i)
                   (if fired then date day else lastRebalanceDate) rest)"

text \<open>The real number behind a finite number (and 0 otherwise).\<close>

fun toReal :: "jsnum \<Rightarrow> real" where
  "toReal (Fin x) = x"
| "toReal x = 0"

text \<open>
  A price is usable when the allocation rule of \<open>calculateUnits\<close> accepts it; positive
  when it is moreover finite; finite when it is a finite number or no number at all.
\<close>

definition usablePrice :: "DailyData \<Rightarrow> string \<Rightarrow> bool" where
  "usablePrice dayData ticker =
     (case priceOf dayData ticker of
        Some price \<Rightarrow> truthy price \<and> jgt price (Fin 0)
      | None \<Rightarrow> False)"


definition finitePrice :: "DailyData \<Rightarrow> string \<Rightarrow> bool" where
  "finitePrice dayData ticker =
     (case priceOf dayData ticker of Some p \<Rightarrow> isFin p | None \<Rightarrow> True)"







text \<open>
  A ticker holds zero units; and a ticker's share of a day's value: the value of the
  holdings of that ticker alone.
\<close>

definition zeroUnits :: "unitHolding \<Rightarrow> string \<Rightarrow> bool" where
  "zeroUnits units ticker = list_all (\<lambda>h. fst h \<noteq> ticker \<or> snd h = Fin 0) units"

definition tickerContribution :: "DailyData \<Rightarrow> unitHolding \<Rightarrow> string \<Rightarrow> jsnum" where
  "tickerContribution dayData units ticker =
     calculateValue dayData (filter (\<lambda>h. fst h = ticker) units)"

text \<open>
  A date constructor to run the model on concrete inputs: it reads \<open>YYYY-MM-DD\<close> as
  midnight UTC, with UTC as the local time zone, and rejects everything else.
\<close>

definition digitVal :: "char \<Rightarrow> nat option" where
  "digitVal c =
     (let code = (of_char c :: nat)
      in if 48 \<le> code \<and> code \<le> 57 then Some (code - 48) else None)"

fun digitsVal :: "nat \<Rightarrow> string \<Rightarrow> nat option" where
  "digitsVal acc [] = Some acc"
| "digitsVal acc (c # cs) =
     (case digitVal c of None \<Rightarrow> None | Some d \<Rightarrow> digitsVal (10 * acc + d) cs)"

definition daysFromCivil :: "int \<Rightarrow> int \<Rightarrow> int \<Rightarrow> int" where
  "daysFromCivil y m d =
     (let y' = (if m \<le> 2 then y - 1 else y);
          era = y' div 400;
          yoe = y' - era * 400;
          doy = (153 * (if 2 < m then m - 3 else m + 9) + 2) div 5 + d - 1;
          doe = yoe * 365 + yoe div 4 - yoe div 100 + doy
      in era * 146097 + doe - 719468)"

definition isoDate :: "string \<Rightarrow> jsdate" where
  "isoDate s =
     (if length s = 10 \<and> s ! 4 = CHR ''-'' \<and> s ! 7 = CHR ''-'' then
        (case (digitsVal 0 (take 4 s), digitsVal 0 (take 2 (drop 5 s)), digitsVal 0 (drop 8 s)) of
           (Some y, Some m, Some d) \<Rightarrow>
             if 1 \<le> m \<and> m \<le> 12 \<and> 1 \<le> d \<and> d \<le> 31
             then ValidDate (daysFromCivil (int y) (int m) (int d) * 86400000) (int y) (m - 1)
             else InvalidDate
         | _ \<Rightarrow> InvalidDate)
      else InvalidDate)"

text \<open>
  A finite number other than 0; a value series of finite numbers; a value series whose
  first value is positive.
\<close>

definition nonzeroFinite :: "jsnum \<Rightarrow> bool" where
  "nonzeroFinite x = (case x of Fin r \<Rightarrow> r \<noteq> 0 | _ \<Rightarrow> False)"

definition finiteValues :: "ValuePoint list \<Rightarrow> bool" where
  "finiteValues vs = list_all (\<lambda>p. isFin (value p)) vs"

definition startsPositive :: "ValuePoint list \<Rightarrow> bool" where
  "startsPositive vs = (case vs of [] \<Rightarrow> False | p # rest \<Rightarrow> jgt (value p) (Fin 0))"

text \<open>
  The running-peak algorithm in the words of the specification: the peak starts at the
  first value; each later value above the peak replaces it, otherwise
  \<open>(peak - value) / peak\<close> is folded into a running maximum that starts at 0.
\<close>

definition runningPeakStep :: "jsnum \<times> jsnum \<Rightarrow> jsnum \<Rightarrow> jsnum \<times> jsnum" where
  "runningPeakStep st v =
     (case st of (peak, worstSoFar) \<Rightarrow>
        if jgt v peak then (v, worstSoFar)
        else (peak, jmax worstSoFar (jdiv (jsub peak v) peak)))"

definition runningPeakDrawdown :: "jsnum list \<Rightarrow> jsnum" where
  "runningPeakDrawdown vals =
     (case vals of [] \<Rightarrow> Fin 0 | v0 # rest \<Rightarrow> snd (foldl runningPeakStep (v0, Fin 0) rest))"







text \<open>
  The months of a value series in the words of the specification: consecutive points
  are grouped by the \<open>YYYY-MM\<close> prefix of their dates; a month's entry has the value of
  its first and of its last point, and the return \<open>endValue / startValue - 1\<close>. The best
  (worst) month is the first one whose return no other return exceeds (falls below).
\<close>

definition monthOf :: "ValuePoint \<Rightarrow> string" where
  "monthOf p = take 7 (date p)"

function monthGroups :: "ValuePoint list \<Rightarrow> ValuePoint list list" where
  "monthGroups [] = []"
| "monthGroups (p # ps) =
     (p # takeWhile (\<lambda>q. monthOf q = monthOf p) ps)
     # monthGroups (dropWhile (\<lambda>q. monthOf q = monthOf p) ps)"
  by pat_completeness auto
termination
  by (relation "measure length") (auto simp: less_Suc_eq_le length_dropWhile_le)

definition monthEntry :: "ValuePoint list \<Rightarrow> MonthlyPerformance" where
  "monthEntry g =
     \<lparr>month = monthOf (hd g),
      return = jsub (jdiv (value (last g)) (value (hd g))) (Fin 1),
      startValue = value (hd g), endValue = value (last g)\<rparr>"

definition firstMaximal :: "MonthlyPerformance list \<Rightarrow> MonthlyPerformance option" where
  "firstMaximal ms = find (\<lambda>m. list_all (\<lambda>m'. jle (return m') (return m)) ms) ms"

definition firstMinimal :: "MonthlyPerformance list \<Rightarrow> MonthlyPerformance option" where
  "firstMinimal ms = find (\<lambda>m. list_all (\<lambda>m'. jle (return m) (return m')) ms) ms"

text \<open>
  Every month has a return that is a finite number: its first value is a finite number
  other than 0 and its last value is finite.
\<close>

definition measurableMonths :: "ValuePoint list \<Rightarrow> bool" where
  "measurableMonths vs =
     list_all (\<lambda>g. nonzeroFinite (value (hd g)) \<and> isFin (value (last g))) (monthGroups vs)"

text \<open>The months saved once the loop has ended.\<close>

definition finalize ::
  "MonthlyPerformance list \<times> string \<times> ValuePoint option \<times> ValuePoint option \<Rightarrow>
   MonthlyPerformance list" where
  "finalize st = (case st of (saved, cm, ms, me) \<Rightarrow> saveMonth cm ms me saved)"

section \<open>The value series\<close>

lemma historyLoop_dates:
  "map date (historyLoop D ws f i st days) = map date days"
  by (induction days arbitrary: i st) (simp_all add: Let_def)

text \<open>
  C1. For every input price sequence, \<open>calculatePortfolioHistory\<close> returns exactly one
  value point per price record, in the same order and with the same dates; for the empty
  price sequence it returns the empty result.
\<close>

theorem C1_one_point_per_record:
  "map date (calculatePortfolioHistory D hist ws k0 f) = map date hist
   \<and> length (calculatePortfolioHistory D hist ws k0 f) = length hist
   \<and> calculatePortfolioHistory D [] ws k0 f = []"
proof -
  have m: "map date (calculatePortfolioHistory D hist ws k0 f) = map date hist"
    by (cases hist)
       (simp_all add: calculatePortfolioHistory_def historyLoop_dates del: historyLoop.simps)
  have "length (map date (calculatePortfolioHistory D hist ws k0 f)) = length (map date hist)"
    by (simp only: m)
  then show ?thesis using m by (simp add: calculatePortfolioHistory_def)
qed

section \<open>The rebalance decision\<close>


lemma shouldRebalance_none: "shouldRebalance D c l FreqNone = False"
  by (simp add: shouldRebalance_def)




section \<open>Finite holdings at finite prices\<close>

lemma isFin_conv: "isFin x \<longleftrightarrow> (\<exists>r. x = Fin r)"
  by (cases x) simp_all












section \<open>The first value\<close>




section \<open>Scaling the initial investment\<close>












section \<open>A single fully weighted asset\<close>







section \<open>A ticker without a usable price on the first date\<close>

lemma calculateUnits_unusable:
  "\<not> usablePrice d t \<Longrightarrow> zeroUnits (calculateUnits ws d v) t"
  by (induction ws)
     (auto simp: calculateUnits_def zeroUnits_def usablePrice_def Let_def split: option.splits)

lemma zero_contribution_foldl:
  "zeroUnits us t \<Longrightarrow> finitePrice d t \<Longrightarrow>
   foldl (\<lambda>totalValue holding.
              case contribution d holding of
                Some c \<Rightarrow> jadd totalValue c
              | None \<Rightarrow> totalValue) (Fin 0) (filter (\<lambda>h. fst h = t) us) = Fin 0"
proof (induction us)
  case Nil
  then show ?case by simp
next
  case (Cons h us)
  then have IH: "foldl (\<lambda>totalValue holding.
              case contribution d holding of
                Some c \<Rightarrow> jadd totalValue c
              | None \<Rightarrow> totalValue) (Fin 0) (filter (\<lambda>h. fst h = t) us) = Fin 0"
    by (simp add: zeroUnits_def)
  show ?case
  proof (cases "fst h = t")
    case False
    then show ?thesis using IH by simp
  next
    case True
    with Cons.prems have z: "snd h = Fin 0" by (simp add: zeroUnits_def)
    have "contribution d h = None \<or> contribution d h = Some (Fin 0)"
      using Cons.prems(2) True z
      by (cases "priceOf d t") (auto simp: contribution_def finitePrice_def isFin_conv)
    then show ?thesis using IH True by auto
  qed
qed

lemma zero_contribution:
  "zeroUnits us t \<Longrightarrow> finitePrice d t \<Longrightarrow> tickerContribution d us t = Fin 0"
  by (simp add: tickerContribution_def calculateValue_def zero_contribution_foldl)

lemma zero_trace:
  "list_all2 (\<lambda>fired day. \<not> (fired \<and> usablePrice day t))
       (take n (firesTrace D f i lrd days)) (take n days) \<Longrightarrow>
   list_all (\<lambda>day. finitePrice day t) days \<Longrightarrow>
   zeroUnits us t \<Longrightarrow>
   list_all2 (\<lambda>day st. zeroUnits (fst st) t \<and> tickerContribution day (fst st) t = Fin 0)
     (take n days) (take n (unitsTrace D ws f i (us, lrd) days))"
proof (induction days arbitrary: n i lrd us)
  case Nil
  then show ?case by simp
next
  case (Cons d days)
  show ?case
  proof (cases n)
    case 0
    then show ?thesis by simp
  next
    case (Suc m)
    let ?fired = "0 < i \<and> shouldRebalance D (date d) lrd f"
    let ?lrd2 = "if ?fired then date d else lrd"
    let ?us2 = "if ?fired then calculateUnits ws d (calculateValue d us) else us"
    from Cons.prems(1) have both:
      "\<not> (?fired \<and> usablePrice d t) \<and>
       list_all2 (\<lambda>fired day. \<not> (fired \<and> usablePrice day t))
         (take m (firesTrace D f (Suc i) ?lrd2 days)) (take m days)"
      unfolding Suc firesTrace.simps Let_def take_Suc_Cons list_all2_Cons by blast
    then have rest:
      "list_all2 (\<lambda>fired day. \<not> (fired \<and> usablePrice day t))
         (take m (firesTrace D f (Suc i) ?lrd2 days)) (take m days)"
      and nu: "\<not> (?fired \<and> usablePrice d t)"
      by blast+
    from Cons.prems(2) have fd: "finitePrice d t"
      and frest: "list_all (\<lambda>day. finitePrice day t) days"
      by simp_all
    have st: "rebalanceStep D ws f i d (us, lrd) = (?us2, ?lrd2)"
      by (simp add: rebalanceStep_def Let_def)
    have z: "zeroUnits ?us2 t"
      using nu Cons.prems(3) calculateUnits_unusable[of d t ws] by auto
    have c: "tickerContribution d ?us2 t = Fin 0"
      by (rule zero_contribution[OF z fd])
    have "list_all2 (\<lambda>day st. zeroUnits (fst st) t \<and> tickerContribution day (fst st) t = Fin 0)
       (d # take m days) ((?us2, ?lrd2) # take m (unitsTrace D ws f (Suc i) (?us2, ?lrd2) days))"
      using Cons.IH[OF rest frest z] z c by simp
    then show ?thesis
      unfolding Suc unitsTrace.simps Let_def st take_Suc_Cons .
  qed
qed

lemma firesTrace_none: "firesTrace D FreqNone i lrd days = replicate (length days) False"
  by (induction days arbitrary: i lrd) (simp_all add: shouldRebalance_none)

lemma historyLoop_trace:
  "map value (historyLoop D ws f i st days)
   = map2 (\<lambda>day st'. calculateValue day (fst st')) days (unitsTrace D ws f i st days)"
  by (induction days arbitrary: i st) (simp_all add: Let_def)

lemma length_unitsTrace: "length (unitsTrace D ws f i st days) = length days"
  by (induction days arbitrary: i st) (simp_all add: Let_def)

lemma never_fired:
  "list_all2 (\<lambda>fired day. \<not> (fired \<and> P day)) (replicate (length days) False) days"
  by (induction days) simp_all

text \<open>
  C3. If a weighted ticker has no usable price on the first date (its price there is 0,
  missing, or otherwise not positive) and its prices are finite numbers or missing, then
  \<open>calculatePortfolioHistory\<close> gives it 0 units at initialization; the value of each day
  is computed from the units in force that day; and over every initial stretch of days
  on which no rebalance fires at a usable price of the ticker, the ticker holds 0 units
  and its share of the day's value is 0. Under the policy \<open>none\<close> this is so on every day.
\<close>

theorem C3_zero_units:
  assumes "\<not> usablePrice day0 t"
    and "list_all (\<lambda>day. finitePrice day t) (day0 # rest)"
  shows "zeroUnits (calculateUnits ws day0 k0) t
    \<and> map value (calculatePortfolioHistory D (day0 # rest) ws k0 f)
      = map2 (\<lambda>day st. calculateValue day (fst st)) (day0 # rest)
          (unitsTrace D ws f 0 (calculateUnits ws day0 k0, date day0) (day0 # rest))
    \<and> (\<forall>n. list_all2 (\<lambda>fired day. \<not> (fired \<and> usablePrice day t))
              (take n (firesTrace D f 0 (date day0) (day0 # rest))) (take n (day0 # rest))
          \<longrightarrow> list_all2
                (\<lambda>day st. zeroUnits (fst st) t \<and> tickerContribution day (fst st) t = Fin 0)
                (take n (day0 # rest))
                (take n (unitsTrace D ws f 0 (calculateUnits ws day0 k0, date day0)
                           (day0 # rest))))
    \<and> list_all2
         (\<lambda>day st. zeroUnits (fst st) t \<and> tickerContribution day (fst st) t = Fin 0)
         (day0 # rest)
         (unitsTrace D ws FreqNone 0 (calculateUnits ws day0 k0, date day0) (day0 # rest))"
proof -
  have z0: "zeroUnits (calculateUnits ws day0 k0) t"
    by (rule calculateUnits_unusable[OF assms(1)])
  have v: "map value (calculatePortfolioHistory D (day0 # rest) ws k0 f)
      = map2 (\<lambda>day st. calculateValue day (fst st)) (day0 # rest)
          (unitsTrace D ws f 0 (calculateUnits ws day0 k0, date day0) (day0 # rest))"
    unfolding calculatePortfolioHistory_def list.case by (rule historyLoop_trace)
  have until: "\<And>f n. list_all2 (\<lambda>fired day. \<not> (fired \<and> usablePrice day t))
              (take n (firesTrace D f 0 (date day0) (day0 # rest))) (take n (day0 # rest))
          \<Longrightarrow> list_all2
                (\<lambda>day st. zeroUnits (fst st) t \<and> tickerContribution day (fst st) t = Fin 0)
                (take n (day0 # rest))
                (take n (unitsTrace D ws f 0 (calculateUnits ws day0 k0, date day0)
                           (day0 # rest)))"
    by (rule zero_trace[OF _ assms(2) z0])
  have "list_all2 (\<lambda>fired day. \<not> (fired \<and> usablePrice day t))
          (take (length (day0 # rest)) (firesTrace D FreqNone 0 (date day0) (day0 # rest)))
          (take (length (day0 # rest)) (day0 # rest))"
    unfolding firesTrace_none using never_fired[of "\<lambda>day. usablePrice day t" "day0 # rest"]
    by simp
  from until[OF this] have none:
    "list_all2
         (\<lambda>day st. zeroUnits (fst st) t \<and> tickerContribution day (fst st) t = Fin 0)
         (day0 # rest)
         (unitsTrace D ws FreqNone 0 (calculateUnits ws day0 k0, date day0) (day0 # rest))"
    using length_unitsTrace[of D ws FreqNone 0 _ "day0 # rest"] by simp
  from z0 v until none show ?thesis by blast
qed

theorem C3_zero_units_witness:
  "\<not> usablePrice \<lparr>date = ''2024-03-15'', tickers = [''BTC'' \<mapsto> Fin 10, ''SOL'' \<mapsto> Fin 0]\<rparr> ''SOL''
   \<and> list_all (\<lambda>day. finitePrice day ''SOL'')
     [\<lparr>date = ''2024-03-15'', tickers = [''BTC'' \<mapsto> Fin 10, ''SOL'' \<mapsto> Fin 0]\<rparr>,
      \<lparr>date = ''2024-03-16'', tickers = [''BTC'' \<mapsto> Fin 12, ''SOL'' \<mapsto> Fin 5]\<rparr>,
      \<lparr>date = ''2024-04-15'', tickers = [''BTC'' \<mapsto> Fin 11, ''SOL'' \<mapsto> Fin 4]\<rparr>]
   \<and> firesTrace isoDate Quarterly 0 ''2024-03-15''
     [\<lparr>date = ''2024-03-15'', tickers = [''BTC'' \<mapsto> Fin 10, ''SOL'' \<mapsto> Fin 0]\<rparr>,
      \<lparr>date = ''2024-03-16'', tickers = [''BTC'' \<mapsto> Fin 12, ''SOL'' \<mapsto> Fin 5]\<rparr>,
      \<lparr>date = ''2024-04-15'', tickers = [''BTC'' \<mapsto> Fin 11, ''SOL'' \<mapsto> Fin 4]\<rparr>] = [False, False, True]
   \<and> list_all2 (\<lambda>fired day. \<not> (fired \<and> usablePrice day ''SOL''))
     (take 2 (firesTrace isoDate Quarterly 0 ''2024-03-15''
     [\<lparr>date = ''2024-03-15'', tickers = [''BTC'' \<mapsto> Fin 10, ''SOL'' \<mapsto> Fin 0]\<rparr>,
      \<lparr>date = ''2024-03-16'', tickers = [''BTC'' \<mapsto> Fin 12, ''SOL'' \<mapsto> Fin 5]\<rparr>,
      \<lparr>date = ''2024-04-15'', tickers = [''BTC'' \<mapsto> Fin 11, ''SOL'' \<mapsto> Fin 4]\<rparr>]))
     (take 2 [\<lparr>date = ''2024-03-15'', tickers = [''BTC'' \<mapsto> Fin 10, ''SOL'' \<mapsto> Fin 0]\<rparr>,
      \<lparr>date = ''2024-03-16'', tickers = [''BTC'' \<mapsto> Fin 12, ''SOL'' \<mapsto> Fin 5]\<rparr>,
      \<lparr>date = ''2024-04-15'', tickers = [''BTC'' \<mapsto> Fin 11, ''SOL'' \<mapsto> Fin 4]\<rparr>])
   \<and> list_all2 (\<lambda>day st. zeroUnits (fst st) ''SOL'' \<and> tickerContribution day (fst st) ''SOL'' = Fin 0)
     (take 2 [\<lparr>date = ''2024-03-15'', tickers = [''BTC'' \<mapsto> Fin 10, ''SOL'' \<mapsto> Fin 0]\<rparr>,
      \<lparr>date = ''2024-03-16'', tickers = [''BTC'' \<mapsto> Fin 12, ''SOL'' \<mapsto> Fin 5]\<rparr>,
      \<lparr>date = ''2024-04-15'', tickers = [''BTC'' \<mapsto> Fin 11, ''SOL'' \<mapsto> Fin 4]\<rparr>])
     (take 2 (unitsTrace isoDate [(''BTC'', Fin 50), (''SOL'', Fin 50)] Quarterly 0
        (calculateUnits [(''BTC'', Fin 50), (''SOL'', Fin 50)] \<lparr>date = ''2024-03-15'', tickers = [''BTC'' \<mapsto> Fin 10, ''SOL'' \<mapsto> Fin 0]\<rparr> (Fin 1000), ''2024-03-15'')
     [\<lparr>date = ''2024-03-15'', tickers = [''BTC'' \<mapsto> Fin 10, ''SOL'' \<mapsto> Fin 0]\<rparr>,
      \<lparr>date = ''2024-03-16'', tickers = [''BTC'' \<mapsto> Fin 12, ''SOL'' \<mapsto> Fin 5]\<rparr>,
      \<lparr>date = ''2024-04-15'', tickers = [''BTC'' \<mapsto> Fin 11, ''SOL'' \<mapsto> Fin 4]\<rparr>]))
   \<and> zeroUnits (calculateUnits [(''BTC'', Fin 50), (''SOL'', Fin 50)] \<lparr>date = ''2024-03-15'', tickers = [''BTC'' \<mapsto> Fin 10, ''SOL'' \<mapsto> Fin 0]\<rparr> (Fin 1000)) ''SOL''"
proof -
  have h1: "\<not> usablePrice \<lparr>date = ''2024-03-15'', tickers = [''BTC'' \<mapsto> Fin 10, ''SOL'' \<mapsto> Fin 0]\<rparr> ''SOL''"
    by (simp add: usablePrice_def priceOf_def)
  have h2: "list_all (\<lambda>day. finitePrice day ''SOL'')
     [\<lparr>date = ''2024-03-15'', tickers = [''BTC'' \<mapsto> Fin 10, ''SOL'' \<mapsto> Fin 0]\<rparr>,
      \<lparr>date = ''2024-03-16'', tickers = [''BTC'' \<mapsto> Fin 12, ''SOL'' \<mapsto> Fin 5]\<rparr>,
      \<lparr>date = ''2024-04-15'', tickers = [''BTC'' \<mapsto> Fin 11, ''SOL'' \<mapsto> Fin 4]\<rparr>]"
    by (simp add: finitePrice_def priceOf_def)
  have tr: "firesTrace isoDate Quarterly 0 ''2024-03-15''
     [\<lparr>date = ''2024-03-15'', tickers = [''BTC'' \<mapsto> Fin 10, ''SOL'' \<mapsto> Fin 0]\<rparr>,
      \<lparr>date = ''2024-03-16'', tickers = [''BTC'' \<mapsto> Fin 12, ''SOL'' \<mapsto> Fin 5]\<rparr>,
      \<lparr>date = ''2024-04-15'', tickers = [''BTC'' \<mapsto> Fin 11, ''SOL'' \<mapsto> Fin 4]\<rparr>] = [False, False, True]"
    by (simp add: shouldRebalance_def isoDate_def digitVal_def daysFromCivil_def jeq_def Let_def)
  have h3: "list_all2 (\<lambda>fired day. \<not> (fired \<and> usablePrice day ''SOL''))
     (take 2 (firesTrace isoDate Quarterly 0 ''2024-03-15''
     [\<lparr>date = ''2024-03-15'', tickers = [''BTC'' \<mapsto> Fin 10, ''SOL'' \<mapsto> Fin 0]\<rparr>,
      \<lparr>date = ''2024-03-16'', tickers = [''BTC'' \<mapsto> Fin 12, ''SOL'' \<mapsto> Fin 5]\<rparr>,
      \<lparr>date = ''2024-04-15'', tickers = [''BTC'' \<mapsto> Fin 11, ''SOL'' \<mapsto> Fin 4]\<rparr>]))
     (take 2 [\<lparr>date = ''2024-03-15'', tickers = [''BTC'' \<mapsto> Fin 10, ''SOL'' \<mapsto> Fin 0]\<rparr>,
      \<lparr>date = ''2024-03-16'', tickers = [''BTC'' \<mapsto> Fin 12, ''SOL'' \<mapsto> Fin 5]\<rparr>,
      \<lparr>date = ''2024-04-15'', tickers = [''BTC'' \<mapsto> Fin 11, ''SOL'' \<mapsto> Fin 4]\<rparr>])"
    unfolding tr by (simp add: usablePrice_def priceOf_def)
  note th = C3_zero_units[OF h1, of
      "[\<lparr>date = ''2024-03-16'', tickers = [''BTC'' \<mapsto> Fin 12, ''SOL'' \<mapsto> Fin 5]\<rparr>,
        \<lparr>date = ''2024-04-15'', tickers = [''BTC'' \<mapsto> Fin 11, ''SOL'' \<mapsto> Fin 4]\<rparr>]"
      "[(''BTC'', Fin 50), (''SOL'', Fin 50)]" "Fin 1000" isoDate Quarterly,
      unfolded dated.simps, OF h2]
  from th have z: "zeroUnits (calculateUnits [(''BTC'', Fin 50), (''SOL'', Fin 50)] \<lparr>date = ''2024-03-15'', tickers = [''BTC'' \<mapsto> Fin 10, ''SOL'' \<mapsto> Fin 0]\<rparr> (Fin 1000)) ''SOL''"
    by (rule conjunct1)
  from th have "\<forall>n. list_all2 (\<lambda>fired day. \<not> (fired \<and> usablePrice day ''SOL''))
     (take n (firesTrace isoDate Quarterly 0 ''2024-03-15''
     [\<lparr>date = ''2024-03-15'', tickers = [''BTC'' \<mapsto> Fin 10, ''SOL'' \<mapsto> Fin 0]\<rparr>,
      \<lparr>date = ''2024-03-16'', tickers = [''BTC'' \<mapsto> Fin 12, ''SOL'' \<mapsto> Fin 5]\<rparr>,
      \<lparr>date = ''2024-04-15'', tickers = [''BTC'' \<mapsto> Fin 11, ''SOL'' \<mapsto> Fin 4]\<rparr>]))
     (take n [\<lparr>date = ''2024-03-15'', tickers = [''BTC'' \<mapsto> Fin 10, ''SOL'' \<mapsto> Fin 0]\<rparr>,
      \<lparr>date = ''2024-03-16'', tickers = [''BTC'' \<mapsto> Fin 12, ''SOL'' \<mapsto> Fin 5]\<rparr>,
      \<lparr>date = ''2024-04-15'', tickers = [''BTC'' \<mapsto> Fin 11, ''SOL'' \<mapsto> Fin 4]\<rparr>])
     \<longrightarrow> list_all2 (\<lambda>day st. zeroUnits (fst st) ''SOL'' \<and> tickerContribution day (fst st) ''SOL'' = Fin 0)
     (take n [\<lparr>date = ''2024-03-15'', tickers = [''BTC'' \<mapsto> Fin 10, ''SOL'' \<mapsto> Fin 0]\<rparr>,
      \<lparr>date = ''2024-03-16'', tickers = [''BTC'' \<mapsto> Fin 12, ''SOL'' \<mapsto> Fin 5]\<rparr>,
      \<lparr>date = ''2024-04-15'', tickers = [''BTC'' \<mapsto> Fin 11, ''SOL'' \<mapsto> Fin 4]\<rparr>])
     (take n (unitsTrace isoDate [(''BTC'', Fin 50), (''SOL'', Fin 50)] Quarterly 0
        (calculateUnits [(''BTC'', Fin 50), (''SOL'', Fin 50)] \<lparr>date = ''2024-03-15'', tickers = [''BTC'' \<mapsto> Fin 10, ''SOL'' \<mapsto> Fin 0]\<rparr> (Fin 1000), ''2024-03-15'')
     [\<lparr>date = ''2024-03-15'', tickers = [''BTC'' \<mapsto> Fin 10, ''SOL'' \<mapsto> Fin 0]\<rparr>,
      \<lparr>date = ''2024-03-16'', tickers = [''BTC'' \<mapsto> Fin 12, ''SOL'' \<mapsto> Fin 5]\<rparr>,
      \<lparr>date = ''2024-04-15'', tickers = [''BTC'' \<mapsto> Fin 11, ''SOL'' \<mapsto> Fin 4]\<rparr>]))"
    by (elim conjE)
  then have c: "list_all2 (\<lambda>day st. zeroUnits (fst st) ''SOL'' \<and> tickerContribution day (fst st) ''SOL'' = Fin 0)
     (take 2 [\<lparr>date = ''2024-03-15'', tickers = [''BTC'' \<mapsto> Fin 10, ''SOL'' \<mapsto> Fin 0]\<rparr>,
      \<lparr>date = ''2024-03-16'', tickers = [''BTC'' \<mapsto> Fin 12, ''SOL'' \<mapsto> Fin 5]\<rparr>,
      \<lparr>date = ''2024-04-15'', tickers = [''BTC'' \<mapsto> Fin 11, ''SOL'' \<mapsto> Fin 4]\<rparr>])
     (take 2 (unitsTrace isoDate [(''BTC'', Fin 50), (''SOL'', Fin 50)] Quarterly 0
        (calculateUnits [(''BTC'', Fin 50), (''SOL'', Fin 50)] \<lparr>date = ''2024-03-15'', tickers = [''BTC'' \<mapsto> Fin 10, ''SOL'' \<mapsto> Fin 0]\<rparr> (Fin 1000), ''2024-03-15'')
     [\<lparr>date = ''2024-03-15'', tickers = [''BTC'' \<mapsto> Fin 10, ''SOL'' \<mapsto> Fin 0]\<rparr>,
      \<lparr>date = ''2024-03-16'', tickers = [''BTC'' \<mapsto> Fin 12, ''SOL'' \<mapsto> Fin 5]\<rparr>,
      \<lparr>date = ''2024-04-15'', tickers = [''BTC'' \<mapsto> Fin 11, ''SOL'' \<mapsto> Fin 4]\<rparr>]))"
    using h3 by blast
  from h1 h2 tr h3 c z show ?thesis by blast
qed

section \<open>Degenerate series\<close>

text \<open>
  C6. For every value series of length 0 or 1 and every initial investment (and every
  benchmark), \<open>calculateMetrics\<close> returns the metrics with the final balance equal to
  the initial investment and the total return, CAGR, volatility, Sharpe ratio, best day,
  worst day and maximum drawdown all 0 (and neither monthly statistics nor correlation).
\<close>

theorem C6_degenerate_series: "calculateMetrics D [] k sp =
     \<lparr>initialInvestment = k, finalBalance = k, totalReturn = Fin 0,
      cagr = Fin 0, volatility = Fin 0, sharpeRatio = Fin 0, bestDay = Fin 0,
      worstDay = Fin 0, maxDrawdown = Fin 0, monthlyStats = None, sp500Correlation = None\<rparr>
  \<and> calculateMetrics D [p] k sp =
     \<lparr>initialInvestment = k, finalBalance = k, totalReturn = Fin 0,
      cagr = Fin 0, volatility = Fin 0, sharpeRatio = Fin 0, bestDay = Fin 0,
      worstDay = Fin 0, maxDrawdown = Fin 0, monthlyStats = None, sp500Correlation = None\<rparr>"
  by (simp add: calculateMetrics_def)

section \<open>Maximum drawdown\<close>

lemma maxDrawdown_loop:
  "2 \<le> length vs \<Longrightarrow>
   maxDrawdown (calculateMetrics D vs k sp) = drawdownLoop (Fin 0) (value (hd vs)) (tl vs)"
  by (cases vs) (simp_all add: calculateMetrics_def Let_def drop_Suc)

lemma drawdownLoop_spec:
  "drawdownLoop m p ps = snd (foldl runningPeakStep (p, m) (map value ps))"
  by (induction ps arbitrary: m p) (simp_all add: runningPeakStep_def Let_def)

lemma drawdownLoop_nonneg:
  "0 < p \<Longrightarrow> 0 \<le> m \<Longrightarrow> finiteValues ps \<Longrightarrow>
   \<exists>r. 0 \<le> r \<and> drawdownLoop (Fin m) (Fin p) ps = Fin r"
proof (induction ps arbitrary: m p)
  case Nil
  then show ?case by simp
next
  case (Cons q ps)
  from Cons.prems obtain v where v: "value q = Fin v"
    by (auto simp: finiteValues_def isFin_conv)
  from Cons.prems have rest: "finiteValues ps" by (simp add: finiteValues_def)
  show ?case
  proof (cases "p < v")
    case True
    with Cons.prems(1) have "0 < v" by simp
    then show ?thesis using True Cons.IH[OF _ Cons.prems(2) rest, of v] by (simp add: v)
  next
    case False
    have "jmax (Fin m) (jdiv (jsub (Fin p) (Fin v)) (Fin p)) = Fin (max m ((p - v) / p))"
      using Cons.prems(1) by (auto simp: jmax_def jsub_def)
    moreover have "0 \<le> max m ((p - v) / p)" using Cons.prems(2) by simp
    ultimately show ?thesis
      using Cons.IH[OF Cons.prems(1) _ rest, of "max m ((p - v) / p)"] False
      by (simp add: v Let_def)
  qed
qed

lemma drawdownLoop_sorted:
  "0 < p \<Longrightarrow> finiteValues ps \<Longrightarrow> sorted_wrt jle (Fin p # map value ps) \<Longrightarrow>
   drawdownLoop (Fin 0) (Fin p) ps = Fin 0"
proof (induction ps arbitrary: p)
  case Nil
  then show ?case by simp
next
  case (Cons q ps)
  from Cons.prems obtain v where v: "value q = Fin v"
    by (auto simp: finiteValues_def isFin_conv)
  from Cons.prems have rest: "finiteValues ps" by (simp add: finiteValues_def)
  from Cons.prems(3) have pv: "p \<le> v" by (auto simp: v jle_def jlt_def jeq_def)
  with Cons.prems(1) have v0: "0 < v" by simp
  from Cons.prems(3) have s: "sorted_wrt jle (Fin v # map value ps)" by (simp add: v)
  show ?case
  proof (cases "p < v")
    case True
    then show ?thesis using Cons.IH[OF v0 rest s] by (simp add: v)
  next
    case False
    with pv have "p = v" by simp
    then show ?thesis using Cons.IH[OF v0 rest s] Cons.prems(1)
      by (simp add: v Let_def jsub_def jmax_def)
  qed
qed

text \<open>
  C7, as stated: for every value series with at least 2 points the maximum drawdown is a
  non-negative number, and 0 for a non-decreasing series. It fails on the series of
  values 0, 0, the history of a portfolio whose only asset is not listed yet: the
  drawdown \<open>(0 - 0) / 0\<close> is not a number, and so is the maximum.
\<close>

theorem C7_counterexample:
  "calculatePortfolioHistory isoDate
      [\<lparr>date = ''2024-01-31'', tickers = [''SOL'' \<mapsto> Fin 0]\<rparr>,
       \<lparr>date = ''2024-02-01'', tickers = [''SOL'' \<mapsto> Fin 0]\<rparr>]
      [(''SOL'', Fin 100)] (Fin 1000) FreqNone
     = [\<lparr>date = ''2024-01-31'', value = Fin 0\<rparr>, \<lparr>date = ''2024-02-01'', value = Fin 0\<rparr>]
   \<and> sorted_wrt jle (map value [\<lparr>date = ''2024-01-31'', value = Fin 0\<rparr>, \<lparr>date = ''2024-02-01'', value = Fin 0\<rparr>])
   \<and> maxDrawdown (calculateMetrics isoDate
        [\<lparr>date = ''2024-01-31'', value = Fin 0\<rparr>, \<lparr>date = ''2024-02-01'', value = Fin 0\<rparr>]
        (Fin 1000) None) = NaN"
  by (simp add: calculatePortfolioHistory_def rebalanceStep_def shouldRebalance_def
        calculateUnits_def calculateValue_def contribution_def priceOf_def
        calculateMetrics_def Let_def jsub_def jmax_def jle_def jeq_def)

text \<open>
  C7, amended: for every value series with at least 2 points, the maximum drawdown
  computed by \<open>calculateMetrics\<close> is the result of the running-peak algorithm; when
  the values are finite numbers and the first value is positive it is a non-negative
  finite number, and it is 0 when moreover the series is non-decreasing; for the values
  100, 50 it is 0.5.
\<close>

theorem C7_max_drawdown_amended:
  assumes "2 \<le> length vs"
  shows "maxDrawdown (calculateMetrics D vs k sp) = runningPeakDrawdown (map value vs)
    \<and> (finiteValues vs \<and> startsPositive vs \<longrightarrow>
         (\<exists>r. 0 \<le> r \<and> maxDrawdown (calculateMetrics D vs k sp) = Fin r)
         \<and> (sorted_wrt jle (map value vs) \<longrightarrow> maxDrawdown (calculateMetrics D vs k sp) = Fin 0))
    \<and> maxDrawdown (calculateMetrics D
          [\<lparr>date = d1, value = Fin 100\<rparr>, \<lparr>date = d2, value = Fin 50\<rparr>] k sp) = Fin (1 / 2)"
proof -
  from assms obtain p0 rest where vs: "vs = p0 # rest" by (cases vs) auto
  have l: "maxDrawdown (calculateMetrics D vs k sp) = drawdownLoop (Fin 0) (value p0) rest"
    using maxDrawdown_loop[OF assms] by (simp add: vs)
  have a: "maxDrawdown (calculateMetrics D vs k sp) = runningPeakDrawdown (map value vs)"
    unfolding l by (simp add: vs runningPeakDrawdown_def drawdownLoop_spec)
  have start: "\<exists>v. value p0 = Fin v \<and> 0 < v \<and> finiteValues rest"
    if "finiteValues vs" "startsPositive vs"
  proof -
    from that(1) obtain v where v: "value p0 = Fin v"
      by (auto simp: vs finiteValues_def isFin_conv)
    with that show ?thesis by (simp add: vs startsPositive_def finiteValues_def)
  qed
  have b: "\<exists>r. 0 \<le> r \<and> maxDrawdown (calculateMetrics D vs k sp) = Fin r"
    if "finiteValues vs" "startsPositive vs"
  proof -
    from start[OF that] obtain v where v: "value p0 = Fin v" "0 < v" "finiteValues rest"
      by blast
    show ?thesis unfolding l v(1) using drawdownLoop_nonneg[OF v(2) _ v(3), of 0] by simp
  qed
  have c: "maxDrawdown (calculateMetrics D vs k sp) = Fin 0"
    if "finiteValues vs" "startsPositive vs" "sorted_wrt jle (map value vs)"
  proof -
    from start[OF that(1,2)] obtain v where v: "value p0 = Fin v" "0 < v" "finiteValues rest"
      by blast
    from that(3) have "sorted_wrt jle (Fin v # map value rest)" by (simp add: vs v(1))
    then show ?thesis unfolding l v(1) by (rule drawdownLoop_sorted[OF v(2,3)])
  qed
  have d: "maxDrawdown (calculateMetrics D
          [\<lparr>date = d1, value = Fin 100\<rparr>, \<lparr>date = d2, value = Fin 50\<rparr>] k sp) = Fin (1 / 2)"
    by (simp add: calculateMetrics_def Let_def jsub_def jmax_def)
  from a b c d show ?thesis by blast
qed

theorem C7_max_drawdown_amended_witness:
  "2 \<le> length [\<lparr>date = ''2024-01-01'', value = Fin 100\<rparr>, \<lparr>date = ''2024-01-02'', value = Fin 120\<rparr>,
      \<lparr>date = ''2024-01-03'', value = Fin 90\<rparr>, \<lparr>date = ''2024-01-04'', value = Fin 130\<rparr>]
   \<and> finiteValues [\<lparr>date = ''2024-01-01'', value = Fin 100\<rparr>, \<lparr>date = ''2024-01-02'', value = Fin 120\<rparr>,
      \<lparr>date = ''2024-01-03'', value = Fin 90\<rparr>, \<lparr>date = ''2024-01-04'', value = Fin 130\<rparr>]
   \<and> startsPositive [\<lparr>date = ''2024-01-01'', value = Fin 100\<rparr>, \<lparr>date = ''2024-01-02'', value = Fin 120\<rparr>,
      \<lparr>date = ''2024-01-03'', value = Fin 90\<rparr>, \<lparr>date = ''2024-01-04'', value = Fin 130\<rparr>]
   \<and> maxDrawdown (calculateMetrics isoDate
     [\<lparr>date = ''2024-01-01'', value = Fin 100\<rparr>, \<lparr>date = ''2024-01-02'', value = Fin 120\<rparr>,
      \<lparr>date = ''2024-01-03'', value = Fin 90\<rparr>, \<lparr>date = ''2024-01-04'', value = Fin 130\<rparr>] (Fin 1000) None)
     = runningPeakDrawdown [Fin 100, Fin 120, Fin 90, Fin 130]
   \<and> runningPeakDrawdown [Fin 100, Fin 120, Fin 90, Fin 130] = Fin (1 / 4)"
proof -
  have h: "2 \<le> length [\<lparr>date = ''2024-01-01'', value = Fin 100\<rparr>, \<lparr>date = ''2024-01-02'', value = Fin 120\<rparr>,
      \<lparr>date = ''2024-01-03'', value = Fin 90\<rparr>, \<lparr>date = ''2024-01-04'', value = Fin 130\<rparr>]"
    by simp
  have f: "finiteValues [\<lparr>date = ''2024-01-01'', value = Fin 100\<rparr>, \<lparr>date = ''2024-01-02'', value = Fin 120\<rparr>,
      \<lparr>date = ''2024-01-03'', value = Fin 90\<rparr>, \<lparr>date = ''2024-01-04'', value = Fin 130\<rparr>]"
    "startsPositive [\<lparr>date = ''2024-01-01'', value = Fin 100\<rparr>, \<lparr>date = ''2024-01-02'', value = Fin 120\<rparr>,
      \<lparr>date = ''2024-01-03'', value = Fin 90\<rparr>, \<lparr>date = ''2024-01-04'', value = Fin 130\<rparr>]"
    by (simp_all add: finiteValues_def startsPositive_def)
  have e: "runningPeakDrawdown [Fin 100, Fin 120, Fin 90, Fin 130] = Fin (1 / 4)"
    by (simp add: runningPeakDrawdown_def runningPeakStep_def jsub_def jmax_def)
  from C7_max_drawdown_amended[OF h, of isoDate "Fin 1000" None] have
    "maxDrawdown (calculateMetrics isoDate
     [\<lparr>date = ''2024-01-01'', value = Fin 100\<rparr>, \<lparr>date = ''2024-01-02'', value = Fin 120\<rparr>,
      \<lparr>date = ''2024-01-03'', value = Fin 90\<rparr>, \<lparr>date = ''2024-01-04'', value = Fin 130\<rparr>] (Fin 1000) None)
     = runningPeakDrawdown [Fin 100, Fin 120, Fin 90, Fin 130]"
    by simp
  with h f e show ?thesis by blast
qed

section \<open>Correlation\<close>















section \<open>Monthly performance\<close>

lemma nonzeroFinite_conv: "nonzeroFinite x \<longleftrightarrow> (\<exists>r. x = Fin r \<and> r \<noteq> 0)"
  by (cases x) (simp_all add: nonzeroFinite_def)

lemma monthLoop_run:
  "list_all (\<lambda>q. monthOf q = cm) xs \<Longrightarrow>
   monthLoop (saved, cm, ms, me) (xs @ ys)
   = monthLoop (saved, cm, ms, if xs = [] then me else Some (last xs)) ys"
  by (induction xs arbitrary: me) (simp_all add: monthOf_def Let_def)

lemma saveMonth_entry:
  "saveMonth (monthOf p) (Some p) (Some (last (p # run))) saved = saved @ [monthEntry (p # run)]"
  by (simp add: saveMonth_def monthEntry_def Let_def)

lemma takeWhile_all: "list_all P (takeWhile P xs)"
  by (induction xs) simp_all

lemma monthLoop_groups:
  "monthOf p \<noteq> cm \<Longrightarrow>
   finalize (monthLoop (saved, cm, ms, me) (p # ps))
   = saveMonth cm ms me saved @ map monthEntry (monthGroups (p # ps))"
proof (induction "p # ps" arbitrary: p ps saved cm ms me rule: monthGroups.induct)
  case (2 p ps)
  let ?run = "takeWhile (\<lambda>q. monthOf q = monthOf p) ps"
  let ?rest = "dropWhile (\<lambda>q. monthOf q = monthOf p) ps"
  let ?saved = "saveMonth cm ms me saved"
  have split: "ps = ?run @ ?rest" by simp
  have step: "monthLoop (saved, cm, ms, me) (p # ps)
        = monthLoop (?saved, monthOf p, Some p, Some p) (?run @ ?rest)"
    using 2(2) by (simp add: monthOf_def Let_def)
  also have "\<dots> = monthLoop (?saved, monthOf p, Some p, Some (last (p # ?run))) ?rest"
    by (subst monthLoop_run) (simp_all add: takeWhile_all)
  finally have loop: "monthLoop (saved, cm, ms, me) (p # ps)
        = monthLoop (?saved, monthOf p, Some p, Some (last (p # ?run))) ?rest" .
  show ?case
  proof (cases ?rest)
    case Nil
    have "finalize (monthLoop (saved, cm, ms, me) (p # ps))
          = saveMonth (monthOf p) (Some p) (Some (last (p # ?run))) ?saved"
      unfolding loop Nil by (simp only: monthLoop.simps finalize_def prod.case)
    also have "\<dots> = ?saved @ [monthEntry (p # ?run)]" by (rule saveMonth_entry)
    finally show ?thesis
      unfolding monthGroups.simps Nil by simp
  next
    case (Cons q qs)
    have "\<not> monthOf q = monthOf p"
      using hd_dropWhile[of "\<lambda>q. monthOf q = monthOf p" ps] by (simp add: Cons)
    then have neq: "monthOf q \<noteq> monthOf p" by simp
    have "finalize (monthLoop (?saved, monthOf p, Some p, Some (last (p # ?run))) (q # qs))
          = saveMonth (monthOf p) (Some p) (Some (last (p # ?run))) ?saved
            @ map monthEntry (monthGroups (q # qs))"
      by (rule 2(1)[OF Cons neq])
    then show ?thesis
      unfolding loop monthGroups.simps(2)[of p ps] Cons saveMonth_entry by simp
  qed
qed

lemma monthly_data:
  assumes "2 \<le> length vs" "date (hd vs) \<noteq> []"
  shows "calculateMonthlyPerformance vs =
    (case map monthEntry (monthGroups vs) of
       [] \<Rightarrow> None
     | m0 # ms \<Rightarrow>
         Some \<lparr>averageReturn =
                 jdiv (foldl (\<lambda>sum m. jadd sum (return m)) (Fin 0) (m0 # ms))
                      (Fin (real (length (m0 # ms)))),
               upMonths = length (filter (\<lambda>m. jgt (return m) (Fin 0)) (m0 # ms)),
               downMonths = length (filter (\<lambda>m. jle (return m) (Fin 0)) (m0 # ms)),
               bestMonth =
                 foldl (\<lambda>best m. if jgt (return m) (return best) then m else best) m0 ms,
               worstMonth =
                 foldl (\<lambda>worst m. if jlt (return m) (return worst) then m else worst) m0 ms,
               monthlyData = m0 # ms\<rparr>)"
proof -
  from assms(1) obtain p ps where vs: "vs = p # ps" by (cases vs) auto
  from assms(2) have m: "monthOf p \<noteq> []" by (simp add: vs monthOf_def)
  have "finalize (monthLoop ([], [], None, None) (p # ps))
        = saveMonth [] None None [] @ map monthEntry (monthGroups (p # ps))"
    by (rule monthLoop_groups[OF m])
  then have f: "finalize (monthLoop ([], [], None, None) vs) = map monthEntry (monthGroups vs)"
    by (simp add: vs saveMonth_def)
  obtain saved cm ms me where st: "monthLoop ([], [], None, None) vs = (saved, cm, ms, me)"
    by (cases "monthLoop ([], [], None, None) vs")
  from f have s: "saveMonth cm ms me saved = map monthEntry (monthGroups vs)"
    by (simp add: st finalize_def)
  show ?thesis
    using assms(1) unfolding calculateMonthlyPerformance_def st prod.case s by simp
qed

lemma monthGroups_nonempty: "vs \<noteq> [] \<Longrightarrow> monthGroups vs \<noteq> []"
  by (cases vs) simp_all

lemma entry_finite:
  assumes "measurableMonths vs" "g \<in> set (monthGroups vs)"
  shows "isFin (return (monthEntry g)) \<and> (length g = 1 \<longrightarrow> return (monthEntry g) = Fin 0)"
proof -
  from assms have "nonzeroFinite (value (hd g))" "isFin (value (last g))"
    by (simp_all add: measurableMonths_def list_all_iff)
  then obtain s e where se: "value (hd g) = Fin s" "s \<noteq> 0" "value (last g) = Fin e"
    unfolding nonzeroFinite_conv isFin_conv by blast
  have a: "isFin (return (monthEntry g))" by (simp add: monthEntry_def se jsub_def)
  have b: "return (monthEntry g) = Fin 0" if "length g = 1"
  proof -
    from that obtain x where "g = [x]" by (cases g) auto
    then show ?thesis using se by (simp add: monthEntry_def jsub_def)
  qed
  from a b show ?thesis by simp
qed

lemma find_snoc:
  "find P (xs @ [x]) = (case find P xs of None \<Rightarrow> (if P x then Some x else None) | Some y \<Rightarrow> Some y)"
  by (induction xs) simp_all

lemma foldl_first_best:
  fixes k :: "'a \<Rightarrow> real"
  assumes "\<And>a b. a \<in> set (m0 # ms) \<Longrightarrow> b \<in> set (m0 # ms) \<Longrightarrow> better a b \<longleftrightarrow> k b < k a"
  shows "foldl (\<lambda>best m. if better m best then m else best) m0 ms \<in> set (m0 # ms)
       \<and> (\<forall>m \<in> set (m0 # ms). k m \<le> k (foldl (\<lambda>best m. if better m best then m else best) m0 ms))
       \<and> find (\<lambda>m. k m = k (foldl (\<lambda>best m. if better m best then m else best) m0 ms)) (m0 # ms)
           = Some (foldl (\<lambda>best m. if better m best then m else best) m0 ms)"
  using assms
proof (induction ms rule: rev_induct)
  case Nil
  then show ?case by simp
next
  case (snoc x ms)
  let ?b = "foldl (\<lambda>best m. if better m best then m else best) m0 ms"
  have prem: "better a b \<longleftrightarrow> k b < k a"
    if "a \<in> set (m0 # ms)" "b \<in> set (m0 # ms)" for a b
    using that by (intro snoc.prems) auto
  note ih = snoc.IH[OF prem]
  have IH: "?b \<in> set (m0 # ms)" "\<forall>m \<in> set (m0 # ms). k m \<le> k ?b"
    "find (\<lambda>m. k m = k ?b) (m0 # ms) = Some ?b"
    using ih by blast+
  have bx: "better x ?b \<longleftrightarrow> k ?b < k x"
    using snoc.prems[of x ?b] IH(1) by auto
  show ?case
  proof (cases "k ?b < k x")
    case True
    have nf: "find (\<lambda>m. k m = k x) (m0 # ms) = None"
      using IH(2) True by (auto simp: find_None_iff)
    have "find (\<lambda>m. k m = k x) (m0 # ms @ [x]) = Some x"
      using find_snoc[of "\<lambda>m. k m = k x" "m0 # ms" x] nf by simp
    then show ?thesis using True bx IH(2) by auto
  next
    case False
    have "find (\<lambda>m. k m = k ?b) (m0 # ms @ [x]) = Some ?b"
      using find_snoc[of "\<lambda>m. k m = k ?b" "m0 # ms" x] IH(3) by simp
    then show ?thesis using False bx IH(1,2) by auto
  qed
qed

lemma best_is_firstMaximal:
  assumes "list_all (\<lambda>m. isFin (return m)) (m0 # ms)"
  shows "Some (foldl (\<lambda>best m. if jgt (return m) (return best) then m else best) m0 ms)
         = firstMaximal (m0 # ms)"
proof -
  let ?k = "\<lambda>m. toReal (return m)"
  let ?b = "foldl (\<lambda>best m. if jgt (return m) (return best) then m else best) m0 ms"
  have fin: "\<exists>r. return a = Fin r" if "a \<in> set (m0 # ms)" for a
    using assms that by (auto simp: list_all_iff isFin_conv)
  have gt: "jgt (return a) (return b) \<longleftrightarrow> ?k b < ?k a"
    if "a \<in> set (m0 # ms)" "b \<in> set (m0 # ms)" for a b
  proof -
    from fin[OF that(1)] fin[OF that(2)] obtain r s where "return a = Fin r" "return b = Fin s"
      by blast
    then show ?thesis by simp
  qed
  have le: "jle (return a) (return b) \<longleftrightarrow> ?k a \<le> ?k b"
    if "a \<in> set (m0 # ms)" "b \<in> set (m0 # ms)" for a b
  proof -
    from fin[OF that(1)] fin[OF that(2)] obtain r s where "return a = Fin r" "return b = Fin s"
      by blast
    then show ?thesis by (auto simp: jle_def jlt_def jeq_def)
  qed
  from foldl_first_best[of m0 ms "\<lambda>a b. jgt (return a) (return b)" ?k, OF gt]
  have b: "?b \<in> set (m0 # ms)" "\<forall>m \<in> set (m0 # ms). ?k m \<le> ?k ?b"
    "find (\<lambda>m. ?k m = ?k ?b) (m0 # ms) = Some ?b"
    by blast+
  have "find (\<lambda>m. list_all (\<lambda>m'. jle (return m') (return m)) (m0 # ms)) (m0 # ms)
        = find (\<lambda>m. ?k m = ?k ?b) (m0 # ms)"
  proof (rule find_cong[OF refl])
    fix m assume m: "m \<in> set (m0 # ms)"
    have "list_all (\<lambda>m'. jle (return m') (return m)) (m0 # ms)
          \<longleftrightarrow> (\<forall>m' \<in> set (m0 # ms). ?k m' \<le> ?k m)"
      unfolding list_all_iff by (rule ball_cong[OF refl]) (rule le[OF _ m])
    also have "\<dots> \<longleftrightarrow> ?k m = ?k ?b"
    proof
      assume "\<forall>m' \<in> set (m0 # ms). ?k m' \<le> ?k m"
      with b(1) have "?k ?b \<le> ?k m" by blast
      moreover from b(2) m have "?k m \<le> ?k ?b" by blast
      ultimately show "?k m = ?k ?b" by simp
    next
      assume "?k m = ?k ?b"
      with b(2) show "\<forall>m' \<in> set (m0 # ms). ?k m' \<le> ?k m" by simp
    qed
    finally show "list_all (\<lambda>m'. jle (return m') (return m)) (m0 # ms) \<longleftrightarrow> ?k m = ?k ?b" .
  qed
  then show ?thesis using b(3) by (simp add: firstMaximal_def)
qed

lemma worst_is_firstMinimal:
  assumes "list_all (\<lambda>m. isFin (return m)) (m0 # ms)"
  shows "Some (foldl (\<lambda>worst m. if jlt (return m) (return worst) then m else worst) m0 ms)
         = firstMinimal (m0 # ms)"
proof -
  let ?k = "\<lambda>m. - toReal (return m)"
  let ?b = "foldl (\<lambda>worst m. if jlt (return m) (return worst) then m else worst) m0 ms"
  have fin: "\<exists>r. return a = Fin r" if "a \<in> set (m0 # ms)" for a
    using assms that by (auto simp: list_all_iff isFin_conv)
  have lt: "jlt (return a) (return b) \<longleftrightarrow> ?k b < ?k a"
    if "a \<in> set (m0 # ms)" "b \<in> set (m0 # ms)" for a b
  proof -
    from fin[OF that(1)] fin[OF that(2)] obtain r s where "return a = Fin r" "return b = Fin s"
      by blast
    then show ?thesis by (simp add: jlt_def)
  qed
  have le: "jle (return a) (return b) \<longleftrightarrow> ?k b \<le> ?k a"
    if "a \<in> set (m0 # ms)" "b \<in> set (m0 # ms)" for a b
  proof -
    from fin[OF that(1)] fin[OF that(2)] obtain r s where "return a = Fin r" "return b = Fin s"
      by blast
    then show ?thesis by (auto simp: jle_def jlt_def jeq_def)
  qed
  from foldl_first_best[of m0 ms "\<lambda>a b. jlt (return a) (return b)" ?k, OF lt]
  have b: "?b \<in> set (m0 # ms)" "\<forall>m \<in> set (m0 # ms). ?k m \<le> ?k ?b"
    "find (\<lambda>m. ?k m = ?k ?b) (m0 # ms) = Some ?b"
    by blast+
  have "find (\<lambda>m. list_all (\<lambda>m'. jle (return m) (return m')) (m0 # ms)) (m0 # ms)
        = find (\<lambda>m. ?k m = ?k ?b) (m0 # ms)"
  proof (rule find_cong[OF refl])
    fix m assume m: "m \<in> set (m0 # ms)"
    have "list_all (\<lambda>m'. jle (return m) (return m')) (m0 # ms)
          \<longleftrightarrow> (\<forall>m' \<in> set (m0 # ms). ?k m' \<le> ?k m)"
      unfolding list_all_iff by (rule ball_cong[OF refl]) (rule le[OF m])
    also have "\<dots> \<longleftrightarrow> ?k m = ?k ?b"
    proof
      assume "\<forall>m' \<in> set (m0 # ms). ?k m' \<le> ?k m"
      with b(1) have "?k ?b \<le> ?k m" by blast
      moreover from b(2) m have "?k m \<le> ?k ?b" by blast
      ultimately show "?k m = ?k ?b" by simp
    next
      assume "?k m = ?k ?b"
      with b(2) show "\<forall>m' \<in> set (m0 # ms). ?k m' \<le> ?k m" by simp
    qed
    finally show "list_all (\<lambda>m'. jle (return m) (return m')) (m0 # ms) \<longleftrightarrow> ?k m = ?k ?b" .
  qed
  then show ?thesis using b(3) by (simp add: firstMinimal_def)
qed

lemma up_down_total:
  "list_all (\<lambda>m. isFin (return m)) ms \<Longrightarrow>
   length (filter (\<lambda>m. jgt (return m) (Fin 0)) ms)
   + length (filter (\<lambda>m. jle (return m) (Fin 0)) ms) = length ms"
proof (induction ms)
  case Nil
  then show ?case by simp
next
  case (Cons m ms)
  then obtain r where "return m = Fin r" by (auto simp: isFin_conv)
  then show ?case using Cons by (auto simp: jle_def jlt_def jeq_def)
qed

text \<open>
  C8, as stated: in the monthly statistics of any value series with at least 2 points, a
  month containing a single point has return 0 (and the best and the worst month have the
  maximum and the minimum return). It fails when a month's first value is 0, as in the
  history of a portfolio whose only asset is not listed yet: each of the two months below
  has the single value 0 and the return \<open>0 / 0 - 1\<close>, which is not a number: it is
  not 0, and it is in no order with any return.
\<close>

theorem C8_counterexample:
  "calculatePortfolioHistory isoDate
      [\<lparr>date = ''2024-01-31'', tickers = [''SOL'' \<mapsto> Fin 0]\<rparr>,
       \<lparr>date = ''2024-02-01'', tickers = [''SOL'' \<mapsto> Fin 0]\<rparr>]
      [(''SOL'', Fin 100)] (Fin 1000) FreqNone
     = [\<lparr>date = ''2024-01-31'', value = Fin 0\<rparr>, \<lparr>date = ''2024-02-01'', value = Fin 0\<rparr>]
   \<and> map length (monthGroups
      [\<lparr>date = ''2024-01-31'', value = Fin 0\<rparr>, \<lparr>date = ''2024-02-01'', value = Fin 0\<rparr>]) = [1, 1]
   \<and> map_option (\<lambda>stats. (map return (monthlyData stats), upMonths stats, downMonths stats))
       (calculateMonthlyPerformance
          [\<lparr>date = ''2024-01-31'', value = Fin 0\<rparr>, \<lparr>date = ''2024-02-01'', value = Fin 0\<rparr>])
     = Some ([NaN, NaN], 0, 0)"
  by (simp add: calculatePortfolioHistory_def rebalanceStep_def shouldRebalance_def
        calculateUnits_def calculateValue_def contribution_def priceOf_def
        monthOf_def calculateMonthlyPerformance_def saveMonth_def Let_def jsub_def
        jle_def jlt_def jeq_def)

text \<open>
  C8, amended: for any value series with at least 2 points whose first date is not
  empty, \<open>calculateMonthlyPerformance\<close> returns statistics whose months are the groups
  of consecutive points of one calendar month, each with the return
  \<open>endValue / startValue - 1\<close> over its first and last point; \<open>upMonths\<close> counts the
  months with return above 0 and \<open>downMonths\<close> those with return at most 0. When the
  first value of every month is a finite number other than 0 and its last value is
  finite (as in a series of positive values), a month of a single point has return 0,
  every month is counted as up or as down, and the best and the worst month are the
  first months with the maximum and with the minimum return.
\<close>

theorem C8_monthly_amended:
  assumes "2 \<le> length vs" "date (hd vs) \<noteq> []"
  shows "\<exists>stats. calculateMonthlyPerformance vs = Some stats
      \<and> monthlyData stats = map monthEntry (monthGroups vs)
      \<and> upMonths stats = length (filter (\<lambda>m. jgt (return m) (Fin 0)) (monthlyData stats))
      \<and> downMonths stats = length (filter (\<lambda>m. jle (return m) (Fin 0)) (monthlyData stats))
      \<and> (measurableMonths vs \<longrightarrow>
           list_all (\<lambda>g. length g \<noteq> 1 \<or> return (monthEntry g) = Fin 0) (monthGroups vs)
           \<and> upMonths stats + downMonths stats = length (monthlyData stats)
           \<and> Some (bestMonth stats) = firstMaximal (monthlyData stats)
           \<and> Some (worstMonth stats) = firstMinimal (monthlyData stats))"
proof -
  from assms(1) have ne: "vs \<noteq> []" by auto
  from monthGroups_nonempty[OF ne] obtain m0 ms where
    md: "map monthEntry (monthGroups vs) = m0 # ms"
    by (cases "map monthEntry (monthGroups vs)") auto
  let ?stats = "\<lparr>averageReturn =
                 jdiv (foldl (\<lambda>sum m. jadd sum (return m)) (Fin 0) (m0 # ms))
                      (Fin (real (length (m0 # ms)))),
               upMonths = length (filter (\<lambda>m. jgt (return m) (Fin 0)) (m0 # ms)),
               downMonths = length (filter (\<lambda>m. jle (return m) (Fin 0)) (m0 # ms)),
               bestMonth =
                 foldl (\<lambda>best m. if jgt (return m) (return best) then m else best) m0 ms,
               worstMonth =
                 foldl (\<lambda>worst m. if jlt (return m) (return worst) then m else worst) m0 ms,
               monthlyData = m0 # ms\<rparr>"
  have s: "calculateMonthlyPerformance vs = Some ?stats"
    unfolding monthly_data[OF assms] md by simp
  have fin_part: "list_all (\<lambda>g. length g \<noteq> 1 \<or> return (monthEntry g) = Fin 0) (monthGroups vs)
           \<and> upMonths ?stats + downMonths ?stats = length (monthlyData ?stats)
           \<and> Some (bestMonth ?stats) = firstMaximal (monthlyData ?stats)
           \<and> Some (worstMonth ?stats) = firstMinimal (monthlyData ?stats)"
    if f: "measurableMonths vs"
  proof -
    have single: "list_all (\<lambda>g. length g \<noteq> 1 \<or> return (monthEntry g) = Fin 0) (monthGroups vs)"
      unfolding list_all_iff using entry_finite[OF f] by blast
    have "list_all (\<lambda>m. isFin (return m)) (map monthEntry (monthGroups vs))"
      unfolding list_all_iff using entry_finite[OF f] by auto
    then have fin: "list_all (\<lambda>m. isFin (return m)) (m0 # ms)" by (simp only: md)
    show ?thesis
      using single up_down_total[OF fin] best_is_firstMaximal[OF fin] worst_is_firstMinimal[OF fin]
      by simp
  qed
  show ?thesis
    by (rule exI[of _ ?stats]) (use s md fin_part in simp)
qed

theorem C8_monthly_amended_witness:
  "2 \<le> length [\<lparr>date = ''2024-01-30'', value = Fin 100\<rparr>, \<lparr>date = ''2024-01-31'', value = Fin 110\<rparr>,
      \<lparr>date = ''2024-02-01'', value = Fin 121\<rparr>,
      \<lparr>date = ''2024-03-01'', value = Fin 121\<rparr>, \<lparr>date = ''2024-03-02'', value = Fin 110\<rparr>]
   \<and> date (hd [\<lparr>date = ''2024-01-30'', value = Fin 100\<rparr>, \<lparr>date = ''2024-01-31'', value = Fin 110\<rparr>,
      \<lparr>date = ''2024-02-01'', value = Fin 121\<rparr>,
      \<lparr>date = ''2024-03-01'', value = Fin 121\<rparr>, \<lparr>date = ''2024-03-02'', value = Fin 110\<rparr>]) \<noteq> []
   \<and> measurableMonths [\<lparr>date = ''2024-01-30'', value = Fin 100\<rparr>, \<lparr>date = ''2024-01-31'', value = Fin 110\<rparr>,
      \<lparr>date = ''2024-02-01'', value = Fin 121\<rparr>,
      \<lparr>date = ''2024-03-01'', value = Fin 121\<rparr>, \<lparr>date = ''2024-03-02'', value = Fin 110\<rparr>]
   \<and> map length (monthGroups [\<lparr>date = ''2024-01-30'', value = Fin 100\<rparr>, \<lparr>date = ''2024-01-31'', value = Fin 110\<rparr>,
      \<lparr>date = ''2024-02-01'', value = Fin 121\<rparr>,
      \<lparr>date = ''2024-03-01'', value = Fin 121\<rparr>, \<lparr>date = ''2024-03-02'', value = Fin 110\<rparr>]) = [2, 1, 2]
   \<and> (\<exists>stats. calculateMonthlyPerformance [\<lparr>date = ''2024-01-30'', value = Fin 100\<rparr>, \<lparr>date = ''2024-01-31'', value = Fin 110\<rparr>,
      \<lparr>date = ''2024-02-01'', value = Fin 121\<rparr>,
      \<lparr>date = ''2024-03-01'', value = Fin 121\<rparr>, \<lparr>date = ''2024-03-02'', value = Fin 110\<rparr>] = Some stats
        \<and> monthlyData stats = map monthEntry (monthGroups [\<lparr>date = ''2024-01-30'', value = Fin 100\<rparr>, \<lparr>date = ''2024-01-31'', value = Fin 110\<rparr>,
      \<lparr>date = ''2024-02-01'', value = Fin 121\<rparr>,
      \<lparr>date = ''2024-03-01'', value = Fin 121\<rparr>, \<lparr>date = ''2024-03-02'', value = Fin 110\<rparr>])
        \<and> upMonths stats + downMonths stats = length (monthlyData stats)
        \<and> Some (bestMonth stats) = firstMaximal (monthlyData stats)
        \<and> Some (worstMonth stats) = firstMinimal (monthlyData stats))
   \<and> map_option (\<lambda>stats. (map return (monthlyData stats), upMonths stats, downMonths stats,
                              month (bestMonth stats), month (worstMonth stats)))
       (calculateMonthlyPerformance [\<lparr>date = ''2024-01-30'', value = Fin 100\<rparr>, \<lparr>date = ''2024-01-31'', value = Fin 110\<rparr>,
      \<lparr>date = ''2024-02-01'', value = Fin 121\<rparr>,
      \<lparr>date = ''2024-03-01'', value = Fin 121\<rparr>, \<lparr>date = ''2024-03-02'', value = Fin 110\<rparr>])
     = Some ([Fin (1 / 10), Fin 0, Fin (- (1 / 11))], 1, 2, ''2024-01'', ''2024-03'')"
proof -
  have h1: "2 \<le> length [\<lparr>date = ''2024-01-30'', value = Fin 100\<rparr>, \<lparr>date = ''2024-01-31'', value = Fin 110\<rparr>,
      \<lparr>date = ''2024-02-01'', value = Fin 121\<rparr>,
      \<lparr>date = ''2024-03-01'', value = Fin 121\<rparr>, \<lparr>date = ''2024-03-02'', value = Fin 110\<rparr>]"
    by simp
  have h2: "date (hd [\<lparr>date = ''2024-01-30'', value = Fin 100\<rparr>, \<lparr>date = ''2024-01-31'', value = Fin 110\<rparr>,
      \<lparr>date = ''2024-02-01'', value = Fin 121\<rparr>,
      \<lparr>date = ''2024-03-01'', value = Fin 121\<rparr>, \<lparr>date = ''2024-03-02'', value = Fin 110\<rparr>]) \<noteq> []"
    by simp
  have h3: "measurableMonths [\<lparr>date = ''2024-01-30'', value = Fin 100\<rparr>, \<lparr>date = ''2024-01-31'', value = Fin 110\<rparr>,
      \<lparr>date = ''2024-02-01'', value = Fin 121\<rparr>,
      \<lparr>date = ''2024-03-01'', value = Fin 121\<rparr>, \<lparr>date = ''2024-03-02'', value = Fin 110\<rparr>]"
    by (simp add: measurableMonths_def nonzeroFinite_def monthOf_def)
  have g: "map length (monthGroups [\<lparr>date = ''2024-01-30'', value = Fin 100\<rparr>, \<lparr>date = ''2024-01-31'', value = Fin 110\<rparr>,
      \<lparr>date = ''2024-02-01'', value = Fin 121\<rparr>,
      \<lparr>date = ''2024-03-01'', value = Fin 121\<rparr>, \<lparr>date = ''2024-03-02'', value = Fin 110\<rparr>]) = [2, 1, 2]"
    by (simp add: monthOf_def)
  have e: "map_option (\<lambda>stats. (map return (monthlyData stats), upMonths stats, downMonths stats,
                              month (bestMonth stats), month (worstMonth stats)))
       (calculateMonthlyPerformance [\<lparr>date = ''2024-01-30'', value = Fin 100\<rparr>, \<lparr>date = ''2024-01-31'', value = Fin 110\<rparr>,
      \<lparr>date = ''2024-02-01'', value = Fin 121\<rparr>,
      \<lparr>date = ''2024-03-01'', value = Fin 121\<rparr>, \<lparr>date = ''2024-03-02'', value = Fin 110\<rparr>])
     = Some ([Fin (1 / 10), Fin 0, Fin (- (1 / 11))], 1, 2, ''2024-01'', ''2024-03'')"
    by (simp add: calculateMonthlyPerformance_def saveMonth_def Let_def jsub_def jle_def jlt_def
          jeq_def)
  from C8_monthly_amended[OF h1 h2] h3 have
    "\<exists>stats. calculateMonthlyPerformance [\<lparr>date = ''2024-01-30'', value = Fin 100\<rparr>, \<lparr>date = ''2024-01-31'', value = Fin 110\<rparr>,
      \<lparr>date = ''2024-02-01'', value = Fin 121\<rparr>,
      \<lparr>date = ''2024-03-01'', value = Fin 121\<rparr>, \<lparr>date = ''2024-03-02'', value = Fin 110\<rparr>] = Some stats
        \<and> monthlyData stats = map monthEntry (monthGroups [\<lparr>date = ''2024-01-30'', value = Fin 100\<rparr>, \<lparr>date = ''2024-01-31'', value = Fin 110\<rparr>,
      \<lparr>date = ''2024-02-01'', value = Fin 121\<rparr>,
      \<lparr>date = ''2024-03-01'', value = Fin 121\<rparr>, \<lparr>date = ''2024-03-02'', value = Fin 110\<rparr>])
        \<and> upMonths stats + downMonths stats = length (monthlyData stats)
        \<and> Some (bestMonth stats) = firstMaximal (monthlyData stats)
        \<and> Some (worstMonth stats) = firstMinimal (monthlyData stats)"
    by blast
  with h1 h2 h3 g e show ?thesis by blast
qed

end
